theory Spec2Isabelle
  imports Main "HOL-Library.Word"
begin

section \<open>The composer test client: data model\<close>

text \<open>
  A shallow embedding of \<open>VtsComposerClient.cpp\<close>. The client is a record of its member
  variables; each member function takes the client (and, where the source takes a
  \<open>ComposerClientWriter*\<close>, the writer) and returns the updated ones together with the
  value the source returns. The remote composer service is a parameter: a record of
  functions that answer a call from the list of calls the client has issued before it, so
  that a service may answer the same call differently at different times.
\<close>

type_synonym int32 = "32 word"
type_synonym int64 = "64 word"

text \<open>
  The service-specific error constants of \<open>IComposerClient\<close> and \<open>IComposer\<close>. Their
  numeric values are declared in the interface definition, not in the client; they are
  kept symbolic and distinct.
\<close>

datatype composer_error =
    EX_BAD_CONFIG
  | EX_BAD_DISPLAY
  | EX_BAD_LAYER
  | EX_BAD_PARAMETER
  | EX_NO_RESOURCES
  | EX_UNSUPPORTED
  | EX_SEAMLESS_NOT_ALLOWED
  | EX_SEAMLESS_NOT_POSSIBLE
  | INVALID_CONFIGURATION

text \<open>
  \<open>ScopedAStatus\<close>: success, a service-specific error, or any other failure of the call
  (a transport or exception status with its code).
\<close>

datatype ScopedAStatus =
    StatusOk
  | ServiceSpecificError composer_error
  | TransportError int32

fun isOk :: "ScopedAStatus \<Rightarrow> bool" where
  "isOk StatusOk = True"
| "isOk (ServiceSpecificError e) = False"
| "isOk (TransportError n) = False"

datatype Capability = LAYER_LIFECYCLE_BATCH_COMMAND | OtherCapability nat

datatype DisplayAttribute =
  INVALID | WIDTH | HEIGHT | VSYNC_PERIOD | DPI_X | DPI_Y | CONFIG_GROUP

datatype LayerLifecycleBatchCommandType = MODIFY | CREATE | DESTROY

text \<open>
  \<open>DisplayResource\<close>: the classification of a display and the set of layers it owns. The
  source keeps the layers in an unordered set and the registry in an unordered map; both
  are lists here, so that \<open>begin()\<close> is the head and the absence of duplicates is a
  property to prove rather than one the type gives away.
\<close>

record DisplayResource =
  isVirtual :: bool
  layers :: "int64 list"

type_synonym registry = "(int64 \<times> DisplayResource) list"

definition newDisplayResource :: "bool \<Rightarrow> DisplayResource" where
  "newDisplayResource v = \<lparr>isVirtual = v, layers = []\<rparr>"

text \<open>The calls the client sends to the remote service, as recorded in the call log.\<close>

datatype remote_call =
    CallGetCapabilities
  | CallGetInterfaceVersion
  | CallDestroyVirtualDisplay int64
  | CallCreateLayer int64 int32
  | CallDestroyLayer int64 int64
  | CallGetActiveConfig int64
  | CallGetDisplayAttribute int64 int32 DisplayAttribute
  | CallGetDisplayConfigs int64
  | CallGetDisplayConfigurations int64

datatype VrrConfig = VrrConfig int32

text \<open>
  \<open>DisplayConfiguration\<close> is the record the extended query returns, \<open>DisplayConfig\<close>
  what the client keeps per config id. Both have a vsync period, a config group and an
  optional variable-refresh configuration; the fields of the former carry a prefix.
\<close>

record DisplayConfiguration =
  configId :: int32
  width :: int32
  height :: int32
  dcn_configGroup :: int32
  dcn_vsyncPeriod :: int32
  dcn_vrrConfig :: "VrrConfig option"

record DisplayConfig =
  vsyncPeriod :: int32
  configGroup :: int32
  vrrConfig :: "VrrConfig option"

text \<open>
  Modelled from the spec: \<open>VtsDisplay\<close> (declared outside this file) is the aggregate of a
  display id, its width and height, and its mapping from config id to \<open>DisplayConfig\<close>.
  A fresh one has no configs; its dimensions are overwritten before discovery hands it out.
\<close>

record VtsDisplay =
  mDisplayId :: int64
  mDisplayWidth :: int32
  mDisplayHeight :: int32
  mDisplayConfigs :: "(int32 \<times> DisplayConfig) list"

text \<open>
  The remote service. Each function gets the calls issued so far and the arguments of the
  call, and returns the status with the value written to the out-parameter.
  \<open>getInterfaceVersion\<close> may leave its out-parameter alone (\<open>None\<close>), in which case the
  client keeps the 1 it initialised the variable with.
\<close>

record composer_service =
  svc_getCapabilities :: "remote_call list \<Rightarrow> ScopedAStatus \<times> Capability list"
  svc_getInterfaceVersion :: "remote_call list \<Rightarrow> ScopedAStatus \<times> int32 option"
  svc_destroyVirtualDisplay :: "remote_call list \<Rightarrow> int64 \<Rightarrow> ScopedAStatus"
  svc_createLayer :: "remote_call list \<Rightarrow> int64 \<Rightarrow> int32 \<Rightarrow> ScopedAStatus \<times> int64"
  svc_destroyLayer :: "remote_call list \<Rightarrow> int64 \<Rightarrow> int64 \<Rightarrow> ScopedAStatus"
  svc_getActiveConfig :: "remote_call list \<Rightarrow> int64 \<Rightarrow> ScopedAStatus \<times> int32"
  svc_getDisplayAttribute ::
    "remote_call list \<Rightarrow> int64 \<Rightarrow> int32 \<Rightarrow> DisplayAttribute \<Rightarrow> ScopedAStatus \<times> int32"
  svc_getDisplayConfigs :: "remote_call list \<Rightarrow> int64 \<Rightarrow> ScopedAStatus \<times> int32 list"
  svc_getDisplayConfigurations ::
    "remote_call list \<Rightarrow> int64 \<Rightarrow> ScopedAStatus \<times> DisplayConfiguration list"

text \<open>
  Modelled from the spec: the event collector (\<open>GraphicsComposerCallback\<close>, declared
  outside this file), as far as the client reads it at teardown: its recorded counts of
  anomalous hotplug, refresh, vsync, vsync-period-change, seamless-possible and
  refresh-rate-debug notifications.
\<close>

record GraphicsComposerCallback =
  invalidHotplugCount :: int32
  invalidRefreshCount :: int32
  invalidVsyncCount :: int32
  invalidVsyncPeriodChangeCount :: int32
  invalidSeamlessPossibleCount :: int32
  invalidRefreshRateDebugEnabledCallbackCount :: int32

text \<open>
  Modelled from the spec: the pending command buffer (\<open>ComposerClientWriter\<close>, declared
  outside this file) is an ordered sequence of lifecycle records keyed by display and
  layer; the client only appends to it.
\<close>

datatype writer_command =
    SetLayerLifecycleBatchCommandType int64 int64 LayerLifecycleBatchCommandType
  | SetNewBufferSlotCount int64 int64 int32

type_synonym ComposerClientWriter = "writer_command list"

text \<open>
  The client. \<open>remoteCalls\<close> is the log of the calls sent to the service, oldest first;
  it is not a member of the source's class, it records what the code does.
\<close>

record VtsComposerClient =
  mDisplayResources :: registry
  mSupportsBatchedCreateLayer :: bool
  mNextLayerHandle :: int64
  mComposerCallback :: "GraphicsComposerCallback option"
  remoteCalls :: "remote_call list"

section \<open>The unordered containers\<close>

text \<open>\<open>find\<close>: the entry stored under a key.\<close>

fun find_display :: "int64 \<Rightarrow> registry \<Rightarrow> DisplayResource option" where
  "find_display d [] = None"
| "find_display d ((k, r) # reg) = (if k = d then Some r else find_display d reg)"

text \<open>
  \<open>insert\<close>: adds the entry unless the key is taken, and says whether it did. The place
  of a new element in the iteration order is unspecified in the source's container; here
  it is the end.
\<close>

definition insert_display :: "int64 \<Rightarrow> DisplayResource \<Rightarrow> registry \<Rightarrow> registry \<times> bool" where
  "insert_display d r reg =
     (case find_display d reg of
        Some _ \<Rightarrow> (reg, False)
      | None \<Rightarrow> (reg @ [(d, r)], True))"

text \<open>\<open>erase\<close> by key.\<close>

definition erase_display :: "int64 \<Rightarrow> registry \<Rightarrow> registry" where
  "erase_display d reg = filter (\<lambda>e. fst e \<noteq> d) reg"

text \<open>A change made through the iterator \<open>find\<close> returned.\<close>

fun update_display ::
  "int64 \<Rightarrow> (DisplayResource \<Rightarrow> DisplayResource) \<Rightarrow> registry \<Rightarrow> registry" where
  "update_display d f [] = []"
| "update_display d f ((k, r) # reg) =
     (if k = d then (k, f r) # reg else (k, r) # update_display d f reg)"

definition insert_layer :: "int64 \<Rightarrow> int64 list \<Rightarrow> int64 list \<times> bool" where
  "insert_layer l ls = (if l \<in> set ls then (ls, False) else (ls @ [l], True))"

definition erase_layer :: "int64 \<Rightarrow> int64 list \<Rightarrow> int64 list" where
  "erase_layer l ls = removeAll l ls"

section \<open>The resource registry\<close>

definition addDisplayToDisplayResources ::
  "int64 \<Rightarrow> bool \<Rightarrow> VtsComposerClient \<Rightarrow> ScopedAStatus \<times> VtsComposerClient" where
  "addDisplayToDisplayResources display isVirt c =
     (case insert_display display (newDisplayResource isVirt) (mDisplayResources c) of
        (reg, inserted) \<Rightarrow>
          if inserted then (StatusOk, c\<lparr>mDisplayResources := reg\<rparr>)
          else (ServiceSpecificError EX_BAD_DISPLAY, c\<lparr>mDisplayResources := reg\<rparr>))"

definition addLayerToDisplayResources ::
  "int64 \<Rightarrow> int64 \<Rightarrow> VtsComposerClient \<Rightarrow> ScopedAStatus \<times> VtsComposerClient" where
  "addLayerToDisplayResources display layer c =
     (let reg = (case find_display display (mDisplayResources c) of
                   None \<Rightarrow> fst (insert_display display (newDisplayResource False)
                                  (mDisplayResources c))
                 | Some _ \<Rightarrow> mDisplayResources c)
      in case find_display display reg of
           None \<Rightarrow> (StatusOk, c\<lparr>mDisplayResources := reg\<rparr>)
         | Some resource \<Rightarrow>
             (case insert_layer layer (layers resource) of
                (ls, inserted) \<Rightarrow>
                  if \<not> inserted
                  then (ServiceSpecificError EX_BAD_LAYER, c\<lparr>mDisplayResources := reg\<rparr>)
                  else (StatusOk,
                        c\<lparr>mDisplayResources :=
                            update_display display (\<lambda>r. r\<lparr>layers := ls\<rparr>) reg\<rparr>)))"

definition removeLayerFromDisplayResources ::
  "int64 \<Rightarrow> int64 \<Rightarrow> VtsComposerClient \<Rightarrow> VtsComposerClient" where
  "removeLayerFromDisplayResources display layer c =
     (case find_display display (mDisplayResources c) of
        None \<Rightarrow> c
      | Some resource \<Rightarrow>
          c\<lparr>mDisplayResources :=
              update_display display (\<lambda>r. r\<lparr>layers := erase_layer layer (layers r)\<rparr>)
                (mDisplayResources c)\<rparr>)"


section \<open>Remote calls\<close>

definition issue :: "remote_call \<Rightarrow> VtsComposerClient \<Rightarrow> VtsComposerClient" where
  "issue call c = c\<lparr>remoteCalls := remoteCalls c @ [call]\<rparr>"

text \<open>
  The constructor, once the service has been found: one capability query, and the batched
  layer lifecycle is on when the service lists it. \<open>EXPECT_TRUE\<close> on the status records a
  test failure and goes on, so it is no branch here. The first layer handle is set in the
  class declaration, which is outside the source file: it is a parameter.
\<close>

definition VtsComposerClient_new :: "composer_service \<Rightarrow> int64 \<Rightarrow> VtsComposerClient" where
  "VtsComposerClient_new R firstLayerHandle =
     (case svc_getCapabilities R [] of
        (status, capabilities) \<Rightarrow>
          \<lparr>mDisplayResources = [],
           mSupportsBatchedCreateLayer =
             (if list_ex (\<lambda>cap. cap = LAYER_LIFECYCLE_BATCH_COMMAND) capabilities
              then True else False),
           mNextLayerHandle = firstLayerHandle,
           mComposerCallback = None,
           remoteCalls = [CallGetCapabilities]\<rparr>)"

definition getInterfaceVersion ::
  "composer_service \<Rightarrow> VtsComposerClient \<Rightarrow> ScopedAStatus \<times> int32 \<times> VtsComposerClient" where
  "getInterfaceVersion R c =
     (case svc_getInterfaceVersion R (remoteCalls c) of
        (status, out) \<Rightarrow>
          (status, (case out of None \<Rightarrow> 1 | Some version \<Rightarrow> version),
           issue CallGetInterfaceVersion c))"

text \<open>
  The version is an \<open>int32_t\<close>: the comparison with 3 is signed. The status of the
  version query is only checked by \<open>EXPECT_TRUE\<close>, which does not change the result.
\<close>

definition getDisplayConfigurationSupported ::
  "composer_service \<Rightarrow> VtsComposerClient \<Rightarrow> bool \<times> VtsComposerClient" where
  "getDisplayConfigurationSupported R c =
     (case getInterfaceVersion R c of
        (status, interfaceVersion, c') \<Rightarrow> (3 \<le>s interfaceVersion, c'))"

definition destroyVirtualDisplay ::
  "composer_service \<Rightarrow> int64 \<Rightarrow> VtsComposerClient \<Rightarrow> ScopedAStatus \<times> VtsComposerClient" where
  "destroyVirtualDisplay R display c =
     (let status = svc_destroyVirtualDisplay R (remoteCalls c) display;
          c1 = issue (CallDestroyVirtualDisplay display) c
      in if \<not> isOk status then (status, c1)
         else (status, c1\<lparr>mDisplayResources := erase_display display (mDisplayResources c1)\<rparr>))"

section \<open>Layer lifecycle\<close>

definition createLayer ::
  "composer_service \<Rightarrow> int64 \<Rightarrow> int32 \<Rightarrow> VtsComposerClient \<times> ComposerClientWriter \<Rightarrow>
   ScopedAStatus \<times> int64 \<times> VtsComposerClient \<times> ComposerClientWriter" where
  "createLayer R display bufferSlotCount cw =
     (case cw of (c, writer) \<Rightarrow>
        if mSupportsBatchedCreateLayer c then
          (let layer = mNextLayerHandle c;
               c1 = c\<lparr>mNextLayerHandle := mNextLayerHandle c + 1\<rparr>;
               writer1 = writer @ [SetLayerLifecycleBatchCommandType display layer CREATE];
               writer2 = writer1 @ [SetNewBufferSlotCount display layer bufferSlotCount]
           in case addLayerToDisplayResources display layer c1 of
                (status, c2) \<Rightarrow> (status, layer, c2, writer2))
        else
          (case svc_createLayer R (remoteCalls c) display bufferSlotCount of
             (status, outLayer) \<Rightarrow>
               let c1 = issue (CallCreateLayer display bufferSlotCount) c in
               if \<not> isOk status then (status, outLayer, c1, writer)
               else (case addLayerToDisplayResources display outLayer c1 of
                       (status', c2) \<Rightarrow> (status', outLayer, c2, writer))))"

definition destroyLayer ::
  "composer_service \<Rightarrow> int64 \<Rightarrow> int64 \<Rightarrow> VtsComposerClient \<times> ComposerClientWriter \<Rightarrow>
   ScopedAStatus \<times> VtsComposerClient \<times> ComposerClientWriter" where
  "destroyLayer R display layer cw =
     (case cw of (c, writer) \<Rightarrow>
        if mSupportsBatchedCreateLayer c then
          (StatusOk, removeLayerFromDisplayResources display layer c,
           writer @ [SetLayerLifecycleBatchCommandType display layer DESTROY])
        else
          (let status = svc_destroyLayer R (remoteCalls c) display layer;
               c1 = issue (CallDestroyLayer display layer) c
           in if \<not> isOk status then (status, c1, writer)
              else (StatusOk, removeLayerFromDisplayResources display layer c1, writer)))"


section \<open>Teardown\<close>

lemma find_display_update:
  "find_display d (update_display d f reg) = map_option f (find_display d reg)"
  by (induction reg) auto

lemma find_display_update_other:
  "d' \<noteq> d \<Longrightarrow> find_display d' (update_display d f reg) = find_display d' reg"
  by (induction reg) auto

lemma keys_update_display: "map fst (update_display d f reg) = map fst reg"
  by (induction reg) auto

lemma length_erase_layer: "length (erase_layer l (l # ls)) < length (l # ls)"
  by (simp add: erase_layer_def le_imp_less_Suc)

lemma destroyLayer_ok_registry:
  assumes "destroyLayer R d l (c, w) = (st, c', w')" "isOk st"
  shows "mDisplayResources c' = mDisplayResources (removeLayerFromDisplayResources d l c)"
  using assms
  by (auto simp: destroyLayer_def Let_def issue_def removeLayerFromDisplayResources_def
      split: if_splits option.splits)

text \<open>The layers the registry holds for a display (none for an unknown display).\<close>

definition layersOf :: "int64 \<Rightarrow> VtsComposerClient \<Rightarrow> int64 list" where
  "layersOf d c =
     (case find_display d (mDisplayResources c) of None \<Rightarrow> [] | Some r \<Rightarrow> layers r)"

text \<open>
  The inner loop of \<open>destroyAllLayers\<close>: while the display at hand owns a layer, destroy
  the first one; a failed destroy ends the teardown.
\<close>

function destroyLayersOf ::
  "composer_service \<Rightarrow> int64 \<Rightarrow> VtsComposerClient \<times> ComposerClientWriter \<Rightarrow>
   bool \<times> VtsComposerClient \<times> ComposerClientWriter" where
  "destroyLayersOf R display (c, writer) =
     (case find_display display (mDisplayResources c) of
        None \<Rightarrow> (True, c, writer)
      | Some resource \<Rightarrow>
          (case layers resource of
             [] \<Rightarrow> (True, c, writer)
           | layer # _ \<Rightarrow>
               (case destroyLayer R display layer (c, writer) of
                  (status, c', writer') \<Rightarrow>
                    if \<not> isOk status then (False, c', writer')
                    else destroyLayersOf R display (c', writer'))))"
  by pat_completeness auto
termination
proof (relation "measure (\<lambda>(R, d, c, w). length (layersOf d c))", goal_cases)
  case 1
  show ?case by simp
next
  case (2 R display c writer resource layer rest x y xa ya)
  from 2(3,4) have eq: "destroyLayer R display layer (c, writer) = (x, xa, ya)"
    by simp
  from 2(5) have ok: "isOk x" by simp
  have "mDisplayResources xa =
      mDisplayResources (removeLayerFromDisplayResources display layer c)"
    by (rule destroyLayer_ok_registry [OF eq ok])
  with 2(1,2) show ?case
    by (simp add: layersOf_def removeLayerFromDisplayResources_def find_display_update
        erase_layer_def le_imp_less_Suc)
qed

declare destroyLayersOf.simps [simp del]


lemma keys_removeLayer:
  "map fst (mDisplayResources (removeLayerFromDisplayResources d l c)) =
   map fst (mDisplayResources c)"
  by (simp add: removeLayerFromDisplayResources_def keys_update_display split: option.splits)

lemma keys_destroyLayer:
  "destroyLayer R d l (c, w) = (st, c', w') \<Longrightarrow>
   map fst (mDisplayResources c') = map fst (mDisplayResources c)"
  by (auto simp: destroyLayer_def Let_def issue_def keys_removeLayer split: if_splits)

lemma keys_destroyLayersOf:
  "destroyLayersOf R d (c, w) = (ok, c', w') \<Longrightarrow>
   map fst (mDisplayResources c') = map fst (mDisplayResources c)"
proof (induction R d "(c, w)" arbitrary: c w rule: destroyLayersOf.induct)
  case (1 R display c writer)
  show ?case
  proof (cases "find_display display (mDisplayResources c)")
    case None
    with "1.prems" show ?thesis by (simp add: destroyLayersOf.simps)
  next
    case (Some resource)
    show ?thesis
    proof (cases "layers resource")
      case Nil
      with Some "1.prems" show ?thesis by (simp add: destroyLayersOf.simps)
    next
      case (Cons layer rest)
      obtain st c1 w1 where dl: "destroyLayer R display layer (c, writer) = (st, c1, w1)"
        by (cases "destroyLayer R display layer (c, writer)") auto
      have k1: "map fst (mDisplayResources c1) = map fst (mDisplayResources c)"
        by (rule keys_destroyLayer [OF dl])
      show ?thesis
      proof (cases "isOk st")
        case False
        with Some Cons dl "1.prems" k1 show ?thesis by (simp add: destroyLayersOf.simps)
      next
        case True
        with Some Cons dl "1.prems" have "destroyLayersOf R display (c1, w1) = (ok, c', w')"
          by (simp add: destroyLayersOf.simps [of R display c writer])
        with "1.hyps" [OF Some Cons dl [symmetric] refl] True k1 show ?thesis by simp
      qed
    qed
  qed
qed

text \<open>\<open>extract\<close>: takes the node with the key out of the map.\<close>

fun extract_display ::
  "int64 \<Rightarrow> registry \<Rightarrow> (int64 \<times> DisplayResource) option \<times> registry" where
  "extract_display d [] = (None, [])"
| "extract_display d ((k, r) # reg) =
     (if k = d then (Some (k, r), reg)
      else (case extract_display d reg of (node, reg') \<Rightarrow> (node, (k, r) # reg')))"

text \<open>\<open>insert\<close> of an extracted node: nothing happens for an empty node.\<close>

definition insert_node :: "(int64 \<times> DisplayResource) option \<Rightarrow> registry \<Rightarrow> registry" where
  "insert_node node reg =
     (case node of None \<Rightarrow> reg | Some (d, r) \<Rightarrow> fst (insert_display d r reg))"

lemma length_extract_display:
  "d \<in> set (map fst reg) \<Longrightarrow> length (snd (extract_display d reg)) < length reg"
  by (induction reg) (force split: prod.splits)+

lemma length_erase_display:
  "d \<in> set (map fst reg) \<Longrightarrow> length (erase_display d reg) < length reg"
  unfolding erase_display_def
  by (induction reg) (auto simp: le_imp_less_Suc)

text \<open>
  The outer loop of \<open>destroyAllLayers\<close>: take the first display of the registry, destroy
  its layers, then destroy it when it is virtual and move its node to \<open>physicalDisplays\<close>
  when it is not. \<open>isVirtual\<close> is read through the reference taken before the layers
  were destroyed; destroying layers does not change it.
\<close>

function destroyAllLayers_loop ::
  "composer_service \<Rightarrow> VtsComposerClient \<times> ComposerClientWriter \<times> registry \<Rightarrow>
   bool \<times> VtsComposerClient \<times> ComposerClientWriter \<times> registry" where
  "destroyAllLayers_loop R (c, writer, physicalDisplays) =
     (case mDisplayResources c of
        [] \<Rightarrow> (True, c, writer, physicalDisplays)
      | (display, resource) # _ \<Rightarrow>
          (case destroyLayersOf R display (c, writer) of
             (drained, c1, writer1) \<Rightarrow>
               if \<not> drained then (False, c1, writer1, physicalDisplays)
               else if isVirtual resource then
                 (case destroyVirtualDisplay R display c1 of
                    (status, c2) \<Rightarrow>
                      if \<not> isOk status then (False, c2, writer1, physicalDisplays)
                      else destroyAllLayers_loop R (c2, writer1, physicalDisplays))
               else
                 (case extract_display display (mDisplayResources c1) of
                    (node, reg) \<Rightarrow>
                      destroyAllLayers_loop R
                        (c1\<lparr>mDisplayResources := reg\<rparr>, writer1,
                         insert_node node physicalDisplays))))"
  by pat_completeness auto
termination
proof (relation "measure (\<lambda>(R, c, w, p). length (mDisplayResources c))", goal_cases)
  case 1
  show ?case by simp
next
  case (2 R c writer physicalDisplays e rest display resource x y c1 writer1 x2 y2)
  from 2(3,4) have dr: "destroyLayersOf R display (c, writer) = (x, c1, writer1)"
    by simp
  have keys: "map fst (mDisplayResources c1) = map fst (mDisplayResources c)"
    by (rule keys_destroyLayersOf [OF dr])
  from 2(1,2) have "display \<in> set (map fst (mDisplayResources c))" by auto
  with keys have mem: "display \<in> set (map fst (mDisplayResources c1))" by simp
  from 2(7,8) have "mDisplayResources y2 = erase_display display (mDisplayResources c1)"
    by (auto simp: destroyVirtualDisplay_def Let_def issue_def split: if_splits)
  with length_erase_display [OF mem] keys show ?case
    by (simp) (metis length_map)
next
  case (3 R c writer physicalDisplays e rest display resource x y c1 writer1 node reg)
  from 3(3,4) have dr: "destroyLayersOf R display (c, writer) = (x, c1, writer1)"
    by simp
  have keys: "map fst (mDisplayResources c1) = map fst (mDisplayResources c)"
    by (rule keys_destroyLayersOf [OF dr])
  from 3(1,2) have "display \<in> set (map fst (mDisplayResources c))" by auto
  with keys have mem: "display \<in> set (map fst (mDisplayResources c1))" by simp
  from 3(7) have "reg = snd (extract_display display (mDisplayResources c1))"
    by (metis snd_conv)
  with length_extract_display [OF mem] keys show ?case
    by (simp) (metis length_map)
qed

declare destroyAllLayers_loop.simps [simp del]

text \<open>
  After the loop the registry is empty; the source swaps it with \<open>physicalDisplays\<close> and
  then clears it.
\<close>

definition destroyAllLayers ::
  "composer_service \<Rightarrow> VtsComposerClient \<times> ComposerClientWriter \<Rightarrow>
   bool \<times> VtsComposerClient \<times> ComposerClientWriter" where
  "destroyAllLayers R cw =
     (case cw of (c, writer) \<Rightarrow>
        (case destroyAllLayers_loop R (c, writer, []) of
           (ok, c1, writer1, physicalDisplays) \<Rightarrow>
             if \<not> ok then (False, c1, writer1)
             else (let swapped = c1\<lparr>mDisplayResources := physicalDisplays\<rparr>;
                       cleared = swapped\<lparr>mDisplayResources := []\<rparr>
                   in (True, cleared, writer1))))"

definition verifyComposerCallbackParams :: "VtsComposerClient \<Rightarrow> bool" where
  "verifyComposerCallbackParams c =
     (case mComposerCallback c of
        None \<Rightarrow> True
      | Some cb \<Rightarrow>
          (let isValid0 = True;
               isValid1 = (if invalidHotplugCount cb \<noteq> 0 then False else isValid0);
               isValid2 = (if invalidRefreshCount cb \<noteq> 0 then False else isValid1);
               isValid3 = (if invalidVsyncCount cb \<noteq> 0 then False else isValid2);
               isValid4 = (if invalidVsyncPeriodChangeCount cb \<noteq> 0 then False else isValid3);
               isValid5 = (if invalidSeamlessPossibleCount cb \<noteq> 0 then False else isValid4);
               isValid6 = (if invalidRefreshRateDebugEnabledCallbackCount cb \<noteq> 0
                           then False else isValid5)
           in isValid6))"

text \<open>\<open>&&\<close> evaluates its right operand only when the left one is true.\<close>

definition tearDown ::
  "composer_service \<Rightarrow> VtsComposerClient \<times> ComposerClientWriter \<Rightarrow>
   bool \<times> VtsComposerClient \<times> ComposerClientWriter" where
  "tearDown R cw =
     (case cw of (c, writer) \<Rightarrow>
        if verifyComposerCallbackParams c then destroyAllLayers R (c, writer)
        else (False, c, writer))"


section \<open>Display discovery\<close>

text \<open>
  Modelled from the spec: the operations of \<open>VtsDisplay\<close> (declared outside this file). A
  display starts without configs; \<open>addDisplayConfig\<close> stores a config under its id, an id
  already stored keeps its config; \<open>setDimensions\<close> copies a width and height onto the
  display.
\<close>

definition VtsDisplay_new :: "int64 \<Rightarrow> VtsDisplay" where
  "VtsDisplay_new display =
     \<lparr>mDisplayId = display, mDisplayWidth = 0, mDisplayHeight = 0, mDisplayConfigs = []\<rparr>"

definition getDisplayId :: "VtsDisplay \<Rightarrow> int64" where
  "getDisplayId vtsDisplay = mDisplayId vtsDisplay"

definition addDisplayConfig :: "int32 \<Rightarrow> DisplayConfig \<Rightarrow> VtsDisplay \<Rightarrow> VtsDisplay" where
  "addDisplayConfig config displayConfig vtsDisplay =
     (case map_of (mDisplayConfigs vtsDisplay) config of
        Some _ \<Rightarrow> vtsDisplay
      | None \<Rightarrow>
          vtsDisplay\<lparr>mDisplayConfigs := mDisplayConfigs vtsDisplay @ [(config, displayConfig)]\<rparr>)"

definition setDimensions :: "int32 \<Rightarrow> int32 \<Rightarrow> VtsDisplay \<Rightarrow> VtsDisplay" where
  "setDimensions w h vtsDisplay = vtsDisplay\<lparr>mDisplayWidth := w, mDisplayHeight := h\<rparr>"

definition getActiveConfig ::
  "composer_service \<Rightarrow> int64 \<Rightarrow> VtsComposerClient \<Rightarrow>
   ScopedAStatus \<times> int32 \<times> VtsComposerClient" where
  "getActiveConfig R display c =
     (case svc_getActiveConfig R (remoteCalls c) display of
        (status, outConfig) \<Rightarrow> (status, outConfig, issue (CallGetActiveConfig display) c))"

definition getDisplayAttribute ::
  "composer_service \<Rightarrow> int64 \<Rightarrow> int32 \<Rightarrow> DisplayAttribute \<Rightarrow> VtsComposerClient \<Rightarrow>
   ScopedAStatus \<times> int32 \<times> VtsComposerClient" where
  "getDisplayAttribute R display config displayAttribute c =
     (case svc_getDisplayAttribute R (remoteCalls c) display config displayAttribute of
        (status, outDisplayAttribute) \<Rightarrow>
          (status, outDisplayAttribute,
           issue (CallGetDisplayAttribute display config displayAttribute) c))"

definition getDisplayConfigurations ::
  "composer_service \<Rightarrow> int64 \<Rightarrow> VtsComposerClient \<Rightarrow>
   ScopedAStatus \<times> DisplayConfiguration list \<times> VtsComposerClient" where
  "getDisplayConfigurations R display c =
     (case svc_getDisplayConfigurations R (remoteCalls c) display of
        (status, outConfigs) \<Rightarrow>
          (status, outConfigs, issue (CallGetDisplayConfigurations display) c))"

definition getDisplayConfigs ::
  "composer_service \<Rightarrow> int64 \<Rightarrow> VtsComposerClient \<Rightarrow>
   ScopedAStatus \<times> int32 list \<times> VtsComposerClient" where
  "getDisplayConfigs R display c =
     (case getDisplayConfigurationSupported R c of
        (supported, c1) \<Rightarrow>
          if \<not> supported then
            (case svc_getDisplayConfigs R (remoteCalls c1) display of
               (status, outConfigs) \<Rightarrow>
                 (status, outConfigs, issue (CallGetDisplayConfigs display) c1))
          else
            (case getDisplayConfigurations R display c1 of
               (status, configs, c2) \<Rightarrow>
                 if \<not> isOk status then (status, [], c2)
                 else (status, map configId configs, c2)))"

fun addDisplayConfigs :: "VtsDisplay \<Rightarrow> DisplayConfiguration list \<Rightarrow> VtsDisplay" where
  "addDisplayConfigs vtsDisplay [] = vtsDisplay"
| "addDisplayConfigs vtsDisplay (config # configs) =
     addDisplayConfigs
       (addDisplayConfig (configId config)
          \<lparr>vsyncPeriod = dcn_vsyncPeriod config, configGroup = dcn_configGroup config,
           vrrConfig = dcn_vrrConfig config\<rparr> vtsDisplay)
       configs"

text \<open>Both attributes are queried before either status is looked at.\<close>

definition addDisplayConfigLegacy ::
  "composer_service \<Rightarrow> VtsDisplay \<Rightarrow> int32 \<Rightarrow> VtsComposerClient \<Rightarrow>
   ScopedAStatus \<times> VtsDisplay \<times> VtsComposerClient" where
  "addDisplayConfigLegacy R vtsDisplay config c =
     (case getDisplayAttribute R (getDisplayId vtsDisplay) config VSYNC_PERIOD c of
        (vsyncStatus, vsyncValue, c1) \<Rightarrow>
          (case getDisplayAttribute R (getDisplayId vtsDisplay) config CONFIG_GROUP c1 of
             (groupStatus, groupValue, c2) \<Rightarrow>
               if isOk vsyncStatus \<and> isOk groupStatus then
                 (StatusOk,
                  addDisplayConfig config
                    \<lparr>vsyncPeriod = vsyncValue, configGroup = groupValue, vrrConfig = None\<rparr>
                    vtsDisplay,
                  c2)
               else (ServiceSpecificError EX_BAD_CONFIG, vtsDisplay, c2)))"

definition updateDisplayProperties ::
  "composer_service \<Rightarrow> VtsDisplay \<Rightarrow> int32 \<Rightarrow> VtsComposerClient \<Rightarrow>
   ScopedAStatus \<times> VtsDisplay \<times> VtsComposerClient" where
  "updateDisplayProperties R vtsDisplay config c =
     (case getDisplayConfigurationSupported R c of
        (supported, c1) \<Rightarrow>
          if supported then
            (case getDisplayConfigurations R (getDisplayId vtsDisplay) c1 of
               (status, configs, c2) \<Rightarrow>
                 (case (if isOk status
                        then List.find (\<lambda>displayConfig. configId displayConfig = config) configs
                        else None) of
                    Some displayConfig \<Rightarrow>
                      (StatusOk,
                       setDimensions (width displayConfig) (height displayConfig) vtsDisplay, c2)
                  | None \<Rightarrow> (ServiceSpecificError EX_BAD_CONFIG, vtsDisplay, c2)))
          else
            (case getDisplayAttribute R (getDisplayId vtsDisplay) config WIDTH c1 of
               (widthStatus, widthValue, c2) \<Rightarrow>
                 (case getDisplayAttribute R (getDisplayId vtsDisplay) config HEIGHT c2 of
                    (heightStatus, heightValue, c3) \<Rightarrow>
                      if isOk widthStatus \<and> isOk heightStatus then
                        (StatusOk, setDimensions widthValue heightValue vtsDisplay, c3)
                      else (ServiceSpecificError EX_BAD_CONFIG, vtsDisplay, c3))))"

text \<open>The loop over the raw config ids of the legacy path: the first failure ends it.\<close>

fun addDisplayConfigsLegacy ::
  "composer_service \<Rightarrow> VtsDisplay \<Rightarrow> int32 list \<Rightarrow> VtsComposerClient \<Rightarrow>
   ScopedAStatus \<times> VtsDisplay \<times> VtsComposerClient" where
  "addDisplayConfigsLegacy R vtsDisplay [] c = (StatusOk, vtsDisplay, c)"
| "addDisplayConfigsLegacy R vtsDisplay (config # configs) c =
     (case addDisplayConfigLegacy R vtsDisplay config c of
        (status, vtsDisplay', c') \<Rightarrow>
          if \<not> isOk status then (status, vtsDisplay', c')
          else addDisplayConfigsLegacy R vtsDisplay' configs c')"

text \<open>
  What \<open>getDisplays\<close> does for one display: its configs by the path the version allows,
  then its active config and its dimensions. The display is entered in the registry only
  when all of that succeeded.
\<close>

definition resolveDisplay ::
  "composer_service \<Rightarrow> int64 \<Rightarrow> VtsComposerClient \<Rightarrow>
   ScopedAStatus \<times> VtsDisplay \<times> VtsComposerClient" where
  "resolveDisplay R display c =
     (let vtsDisplay = VtsDisplay_new display in
      case getDisplayConfigurationSupported R c of
        (supported, c1) \<Rightarrow>
          (case (if supported then
                   (case getDisplayConfigurations R display c1 of
                      (status, configs, c2) \<Rightarrow>
                        if \<not> isOk status then (status, vtsDisplay, c2)
                        else (StatusOk, addDisplayConfigs vtsDisplay configs, c2))
                 else
                   (case getDisplayConfigs R display c1 of
                      (status, configs, c2) \<Rightarrow>
                        if \<not> isOk status then (status, vtsDisplay, c2)
                        else addDisplayConfigsLegacy R vtsDisplay configs c2)) of
             (status, vtsDisplay1, c3) \<Rightarrow>
               if \<not> isOk status then (status, vtsDisplay1, c3)
               else
                 (case getActiveConfig R display c3 of
                    (activeStatus, activeConfig, c4) \<Rightarrow>
                      if \<not> isOk activeStatus then (activeStatus, vtsDisplay1, c4)
                      else
                        (case updateDisplayProperties R vtsDisplay1 activeConfig c4 of
                           (status', vtsDisplay2, c5) \<Rightarrow>
                             if \<not> isOk status' then (status', vtsDisplay2, c5)
                             else (StatusOk, vtsDisplay2,
                                   snd (addDisplayToDisplayResources display False c5))))))"

text \<open>The loop over the displays the collector reported; it returns what it has resolved
  so far together with the first failure.\<close>

fun resolveDisplays ::
  "composer_service \<Rightarrow> int64 list \<Rightarrow> VtsDisplay list \<Rightarrow> VtsComposerClient \<Rightarrow>
   ScopedAStatus \<times> VtsDisplay list \<times> VtsComposerClient" where
  "resolveDisplays R [] vtsDisplays c = (StatusOk, vtsDisplays, c)"
| "resolveDisplays R (display # displays) vtsDisplays c =
     (case resolveDisplay R display c of
        (status, vtsDisplay, c') \<Rightarrow>
          if \<not> isOk status then (status, vtsDisplays, c')
          else resolveDisplays R displays (vtsDisplays @ [vtsDisplay]) c')"

text \<open>
  \<open>getDisplays\<close> polls the collector until it reports a display; \<open>polls n\<close> is what the
  collector reports at poll number \<open>n\<close>. The loop has no bound: where the collector never
  reports a display the function does not return, which is the value \<open>None\<close>.
\<close>

partial_function (option) getDisplays ::
  "composer_service \<Rightarrow> (nat \<Rightarrow> int64 list) \<Rightarrow> nat \<Rightarrow> VtsComposerClient \<Rightarrow>
   (ScopedAStatus \<times> VtsDisplay list \<times> VtsComposerClient) option" where
  "getDisplays R polls n c =
     (if polls n = [] then getDisplays R polls (Suc n) c
      else Some (resolveDisplays R (polls n) [] c))"




section \<open>Operation sequences and example sessions\<close>

text \<open>
  Sequences of the registry's operations. A display is added by
  \<open>addDisplayToDisplayResources\<close> and removed by the \<open>erase\<close> in \<open>destroyVirtualDisplay\<close>
  (which the service may refuse); a layer is added by \<open>addLayerToDisplayResources\<close> and
  removed by \<open>removeLayerFromDisplayResources\<close>.
\<close>

datatype display_op = AddDisplay int64 bool | RemoveDisplay int64

fun applyDisplayOp ::
  "composer_service \<Rightarrow> display_op \<Rightarrow> VtsComposerClient \<Rightarrow> VtsComposerClient" where
  "applyDisplayOp R (AddDisplay d v) c = snd (addDisplayToDisplayResources d v c)"
| "applyDisplayOp R (RemoveDisplay d) c = snd (destroyVirtualDisplay R d c)"

fun runDisplayOps ::
  "composer_service \<Rightarrow> display_op list \<Rightarrow> VtsComposerClient \<Rightarrow> VtsComposerClient" where
  "runDisplayOps R [] c = c"
| "runDisplayOps R (opn # ops) c = runDisplayOps R ops (applyDisplayOp R opn c)"


datatype layer_op = AddLayer int64 int64 | RemoveLayer int64 int64

fun applyLayerOp :: "layer_op \<Rightarrow> VtsComposerClient \<Rightarrow> VtsComposerClient" where
  "applyLayerOp (AddLayer d l) c = snd (addLayerToDisplayResources d l c)"
| "applyLayerOp (RemoveLayer d l) c = removeLayerFromDisplayResources d l c"

fun runLayerOps :: "layer_op list \<Rightarrow> VtsComposerClient \<Rightarrow> VtsComposerClient" where
  "runLayerOps [] c = c"
| "runLayerOps (opn # ops) c = runLayerOps ops (applyLayerOp opn c)"

definition displayIds :: "VtsComposerClient \<Rightarrow> int64 list" where
  "displayIds c = map fst (mDisplayResources c)"

text \<open>
  Services and sessions to evaluate the client on: a service that grants every call and
  answers version 2, and one that refuses to create or destroy layers and to report
  attributes; a session with a physical and a virtual display, without and with the
  batched layer lifecycle, and the same session with a collector that has counted one
  vsync it should not have received.
\<close>

definition okAttribute :: "int32 \<Rightarrow> DisplayAttribute \<Rightarrow> int32" where
  "okAttribute config a =
     (if a = VSYNC_PERIOD then 16666666 + config
      else if a = CONFIG_GROUP then 4 + config
      else if a = WIDTH then 1080 else 1920)"

definition okService :: composer_service where
  "okService =
     \<lparr>svc_getCapabilities = (\<lambda>h. (StatusOk, [LAYER_LIFECYCLE_BATCH_COMMAND])),
      svc_getInterfaceVersion = (\<lambda>h. (StatusOk, Some 2)),
      svc_destroyVirtualDisplay = (\<lambda>h d. StatusOk),
      svc_createLayer = (\<lambda>h d n. (StatusOk, 100)),
      svc_destroyLayer = (\<lambda>h d l. StatusOk),
      svc_getActiveConfig = (\<lambda>h d. (StatusOk, 0)),
      svc_getDisplayAttribute = (\<lambda>h d config a. (StatusOk, okAttribute config a)),
      svc_getDisplayConfigs = (\<lambda>h d. (StatusOk, [0, 1])),
      svc_getDisplayConfigurations = (\<lambda>h d. (StatusOk, []))\<rparr>"

definition brokenService :: composer_service where
  "brokenService =
     okService
       \<lparr>svc_createLayer := (\<lambda>h d n. (TransportError 5, 0)),
        svc_destroyLayer := (\<lambda>h d l. ServiceSpecificError EX_BAD_LAYER),
        svc_getDisplayAttribute := (\<lambda>h d config a. (ServiceSpecificError EX_BAD_DISPLAY, 0))\<rparr>"

definition quietCallback :: GraphicsComposerCallback where
  "quietCallback =
     \<lparr>invalidHotplugCount = 0, invalidRefreshCount = 0, invalidVsyncCount = 0,
      invalidVsyncPeriodChangeCount = 0, invalidSeamlessPossibleCount = 0,
      invalidRefreshRateDebugEnabledCallbackCount = 0\<rparr>"

definition unbatchedClient :: VtsComposerClient where
  "unbatchedClient =
     \<lparr>mDisplayResources =
        [(1, \<lparr>isVirtual = False, layers = [10, 11]\<rparr>), (2, \<lparr>isVirtual = True, layers = [20]\<rparr>)],
      mSupportsBatchedCreateLayer = False,
      mNextLayerHandle = 1,
      mComposerCallback = Some quietCallback,
      remoteCalls = [CallGetCapabilities]\<rparr>"

definition batchedClient :: VtsComposerClient where
  "batchedClient = unbatchedClient\<lparr>mSupportsBatchedCreateLayer := True\<rparr>"

definition anomalousClient :: VtsComposerClient where
  "anomalousClient =
     unbatchedClient
       \<lparr>mComposerCallback :=
          Some \<lparr>invalidHotplugCount = 0, invalidRefreshCount = 0, invalidVsyncCount = 1,
                invalidVsyncPeriodChangeCount = 0, invalidSeamlessPossibleCount = 0,
                invalidRefreshRateDebugEnabledCallbackCount = 0\<rparr>\<rparr>"

text \<open>
  A service whose version answer rises from 2 to 3 after the first version query and
  whose extended configuration query is unsupported, a session that has already asked it
  once, and a collector that reports display 5 from the third poll on.
\<close>

definition lateHotplug :: "nat \<Rightarrow> int64 list" where
  "lateHotplug n = (if n < 2 then [] else [5])"

definition upgradingService :: composer_service where
  "upgradingService =
     okService
       \<lparr>svc_getInterfaceVersion :=
          (\<lambda>h. (StatusOk, Some (if CallGetInterfaceVersion \<in> set h then 3 else 2))),
        svc_getDisplayConfigurations := (\<lambda>h d. (ServiceSpecificError EX_UNSUPPORTED, []))\<rparr>"





text \<open>The number of version queries in a session's call log.\<close>

definition versionQueries :: "VtsComposerClient \<Rightarrow> nat" where
  "versionQueries c = count_list (remoteCalls c) CallGetInterfaceVersion"

text \<open>The attribute queries for the vsync period and the config group.\<close>

definition isTimingQuery :: "remote_call \<Rightarrow> bool" where
  "isTimingQuery call =
     (case call of
        CallGetDisplayAttribute d config a \<Rightarrow> a = VSYNC_PERIOD \<or> a = CONFIG_GROUP
      | _ \<Rightarrow> False)"

section \<open>Properties of the registry\<close>

lemma find_display_None_iff: "find_display d reg = None \<longleftrightarrow> d \<notin> set (map fst reg)"
  by (induction reg) (auto split: if_splits)

lemma distinct_insert_display:
  "distinct (map fst reg) \<Longrightarrow> distinct (map fst (fst (insert_display d r reg)))"
  by (auto simp: insert_display_def find_display_None_iff split: option.splits)

lemma distinct_erase_display:
  "distinct (map fst reg) \<Longrightarrow> distinct (map fst (erase_display d reg))"
  by (simp add: erase_display_def distinct_map_filter)

lemma applyDisplayOp_distinct:
  "distinct (displayIds c) \<Longrightarrow> distinct (displayIds (applyDisplayOp R opn c))"
proof (cases opn)
  case (AddDisplay d v)
  assume "distinct (displayIds c)"
  then show ?thesis
    using distinct_insert_display [of "mDisplayResources c" d "newDisplayResource v"]
    by (auto simp: AddDisplay displayIds_def addDisplayToDisplayResources_def split: prod.splits)
next
  case (RemoveDisplay d)
  assume "distinct (displayIds c)"
  then show ?thesis
    by (simp add: RemoveDisplay displayIds_def destroyVirtualDisplay_def Let_def issue_def
        distinct_erase_display)
qed

lemma runDisplayOps_distinct:
  "distinct (displayIds c) \<Longrightarrow> distinct (displayIds (runDisplayOps R ops c))"
  by (induction ops arbitrary: c) (simp_all add: applyDisplayOp_distinct)

lemma addDisplay_present:
  "find_display d (mDisplayResources c) = Some r \<Longrightarrow>
   addDisplayToDisplayResources d v c = (ServiceSpecificError EX_BAD_DISPLAY, c)"
  by (simp add: addDisplayToDisplayResources_def insert_display_def)

lemma addDisplay_absent:
  "find_display d (mDisplayResources c) = None \<Longrightarrow>
   addDisplayToDisplayResources d v c =
     (StatusOk, c\<lparr>mDisplayResources := mDisplayResources c @ [(d, \<lparr>isVirtual = v, layers = []\<rparr>)]\<rparr>)"
  by (simp add: addDisplayToDisplayResources_def insert_display_def newDisplayResource_def)

text \<open>
  Claim C6. Whatever sequence of display additions and removals runs, the registry never
  holds two entries with the same display id, from any registry without duplicates and in
  particular from the empty one a new client has. Adding an id that is present fails with
  \<open>EX_BAD_DISPLAY\<close> and leaves the client as it was; adding an absent id succeeds and
  inserts an entry of the requested kind with no layers.
\<close>

theorem registry_display_ids_unique:
  "(distinct (displayIds c) \<longrightarrow> distinct (displayIds (runDisplayOps R ops c)))
   \<and> distinct (displayIds (runDisplayOps R ops (VtsComposerClient_new R h)))
   \<and> (d \<in> set (displayIds c) \<longrightarrow>
        addDisplayToDisplayResources d v c = (ServiceSpecificError EX_BAD_DISPLAY, c))
   \<and> (d \<notin> set (displayIds c) \<longrightarrow>
        addDisplayToDisplayResources d v c =
          (StatusOk,
           c\<lparr>mDisplayResources :=
               mDisplayResources c @ [(d, \<lparr>isVirtual = v, layers = []\<rparr>)]\<rparr>))"
proof -
  have "distinct (displayIds (VtsComposerClient_new R h))"
    by (simp add: displayIds_def VtsComposerClient_new_def split: prod.splits)
  then have "distinct (displayIds (runDisplayOps R ops (VtsComposerClient_new R h)))"
    by (rule runDisplayOps_distinct)
  moreover have "d \<in> set (displayIds c) \<longrightarrow>
        addDisplayToDisplayResources d v c = (ServiceSpecificError EX_BAD_DISPLAY, c)"
    using addDisplay_present [of d c _ v] find_display_None_iff [of d "mDisplayResources c"]
    by (auto simp: displayIds_def)
  moreover have "d \<notin> set (displayIds c) \<longrightarrow>
        addDisplayToDisplayResources d v c =
          (StatusOk,
           c\<lparr>mDisplayResources :=
               mDisplayResources c @ [(d, \<lparr>isVirtual = v, layers = []\<rparr>)]\<rparr>)"
    using addDisplay_absent [of d c v] find_display_None_iff [of d "mDisplayResources c"]
    by (auto simp: displayIds_def)
  ultimately show ?thesis
    using runDisplayOps_distinct [of c R ops] by blast
qed

theorem registry_display_ids_unique_witness:
  "distinct (displayIds unbatchedClient)
   \<and> distinct (displayIds
        (runDisplayOps okService [AddDisplay 3 True, AddDisplay 1 True, RemoveDisplay 2]
           unbatchedClient))
   \<and> 1 \<in> set (displayIds unbatchedClient)
   \<and> addDisplayToDisplayResources 1 True unbatchedClient =
       (ServiceSpecificError EX_BAD_DISPLAY, unbatchedClient)
   \<and> 3 \<notin> set (displayIds unbatchedClient)
   \<and> addDisplayToDisplayResources 3 True unbatchedClient =
       (StatusOk,
        unbatchedClient\<lparr>mDisplayResources :=
          mDisplayResources unbatchedClient @ [(3, \<lparr>isVirtual = True, layers = []\<rparr>)]\<rparr>)"
proof -
  have ids: "displayIds unbatchedClient = [1, 2]"
    by (simp add: displayIds_def unbatchedClient_def)
  show ?thesis
    using registry_display_ids_unique [of unbatchedClient okService
        "[AddDisplay 3 True, AddDisplay 1 True, RemoveDisplay 2]" 1 1 True]
      registry_display_ids_unique [of unbatchedClient okService "[]" 1 3 True]
    by (simp add: ids)
qed

lemma find_display_append:
  "find_display d (reg @ [(k, r)]) =
     (case find_display d reg of Some x \<Rightarrow> Some x | None \<Rightarrow> if k = d then Some r else None)"
  by (induction reg) auto

lemma update_display_id:
  "find_display d reg = Some r \<Longrightarrow> f r = r \<Longrightarrow> update_display d f reg = reg"
  by (induction reg) (auto split: if_splits)

lemma find_display_update_any:
  "find_display d' (update_display d f reg) =
     (if d' = d then map_option f (find_display d reg) else find_display d' reg)"
  by (induction reg) auto

lemma layersOf_removeLayer:
  "layersOf d' (removeLayerFromDisplayResources d l c) =
     (if d' = d then erase_layer l (layersOf d c) else layersOf d' c)"
  by (auto simp: layersOf_def removeLayerFromDisplayResources_def find_display_update_any
      erase_layer_def split: option.splits)

lemma layersOf_addLayer:
  "layersOf d' (snd (addLayerToDisplayResources d l c)) =
     (if d' = d then fst (insert_layer l (layersOf d c)) else layersOf d' c)"
  by (auto simp: layersOf_def addLayerToDisplayResources_def insert_display_def
      find_display_append find_display_update_any insert_layer_def newDisplayResource_def
      Let_def split: option.splits)

lemma applyLayerOp_distinct:
  "distinct (layersOf d c) \<Longrightarrow> distinct (layersOf d (applyLayerOp opn c))"
  by (cases opn)
     (auto simp: layersOf_addLayer layersOf_removeLayer insert_layer_def erase_layer_def
       distinct_removeAll)

lemma runLayerOps_distinct:
  "distinct (layersOf d c) \<Longrightarrow> distinct (layersOf d (runLayerOps ops c))"
  by (induction ops arbitrary: c) (simp_all add: applyLayerOp_distinct)

lemma addLayer_present:
  assumes "l \<in> set (layersOf d c)"
  shows "addLayerToDisplayResources d l c = (ServiceSpecificError EX_BAD_LAYER, c)"
  using assms
  by (auto simp: layersOf_def addLayerToDisplayResources_def insert_layer_def Let_def
      split: option.splits)

lemma removeLayer_absent_display:
  "find_display d (mDisplayResources c) = None \<Longrightarrow> removeLayerFromDisplayResources d l c = c"
  by (simp add: removeLayerFromDisplayResources_def)

lemma removeLayer_absent_layer:
  assumes "l \<notin> set (layersOf d c)"
  shows "removeLayerFromDisplayResources d l c = c"
proof (cases "find_display d (mDisplayResources c)")
  case None
  then show ?thesis by (rule removeLayer_absent_display)
next
  case (Some r)
  with assms have "l \<notin> set (layers r)" by (simp add: layersOf_def)
  then have "r\<lparr>layers := erase_layer l (layers r)\<rparr> = r"
    by (simp add: erase_layer_def)
  with Some have "update_display d (\<lambda>r. r\<lparr>layers := erase_layer l (layers r)\<rparr>)
      (mDisplayResources c) = mDisplayResources c"
    by (intro update_display_id [where r = r]) simp_all
  with Some show ?thesis by (simp add: removeLayerFromDisplayResources_def)
qed

text \<open>
  Claim C7. Whatever sequence of layer additions and removals runs, the layers a display
  owns never contain a duplicate. Adding a layer id the display already owns fails with
  \<open>EX_BAD_LAYER\<close> and leaves the client as it was; removing a layer from an unknown
  display, or a layer the display does not own, changes nothing, and removing twice is
  the same as removing once.
\<close>

theorem display_layers_unique:
  "(distinct (layersOf d c) \<longrightarrow> distinct (layersOf d (runLayerOps ops c)))
   \<and> distinct (layersOf d (runLayerOps ops (VtsComposerClient_new R h)))
   \<and> (l \<in> set (layersOf d c) \<longrightarrow>
        addLayerToDisplayResources d l c = (ServiceSpecificError EX_BAD_LAYER, c))
   \<and> (find_display d (mDisplayResources c) = None \<longrightarrow>
        removeLayerFromDisplayResources d l c = c)
   \<and> (l \<notin> set (layersOf d c) \<longrightarrow> removeLayerFromDisplayResources d l c = c)
   \<and> removeLayerFromDisplayResources d l (removeLayerFromDisplayResources d l c) =
       removeLayerFromDisplayResources d l c"
proof -
  have "distinct (layersOf d (VtsComposerClient_new R h))"
    by (simp add: layersOf_def VtsComposerClient_new_def split: prod.splits)
  then have new: "distinct (layersOf d (runLayerOps ops (VtsComposerClient_new R h)))"
    by (rule runLayerOps_distinct)
  have "l \<notin> set (layersOf d (removeLayerFromDisplayResources d l c))"
    by (simp add: layersOf_removeLayer erase_layer_def)
  then have idem: "removeLayerFromDisplayResources d l (removeLayerFromDisplayResources d l c) =
       removeLayerFromDisplayResources d l c"
    by (rule removeLayer_absent_layer)
  show ?thesis
    using new idem runLayerOps_distinct [of d c ops] addLayer_present [of l d c]
      removeLayer_absent_display [of d c l] removeLayer_absent_layer [of l d c]
    by blast
qed

theorem display_layers_unique_witness:
  "distinct (layersOf 1 unbatchedClient)
   \<and> distinct (layersOf 1
        (runLayerOps [AddLayer 1 12, AddLayer 1 10, RemoveLayer 1 11, RemoveLayer 1 11]
           unbatchedClient))
   \<and> 10 \<in> set (layersOf 1 unbatchedClient)
   \<and> addLayerToDisplayResources 1 10 unbatchedClient =
       (ServiceSpecificError EX_BAD_LAYER, unbatchedClient)
   \<and> find_display 9 (mDisplayResources unbatchedClient) = None
   \<and> removeLayerFromDisplayResources 9 10 unbatchedClient = unbatchedClient
   \<and> 12 \<notin> set (layersOf 1 unbatchedClient)
   \<and> removeLayerFromDisplayResources 1 12 unbatchedClient = unbatchedClient"
proof -
  have ls: "layersOf 1 unbatchedClient = [10, 11]"
    by (simp add: layersOf_def unbatchedClient_def)
  have nf: "find_display 9 (mDisplayResources unbatchedClient) = None"
    by (simp add: unbatchedClient_def)
  show ?thesis
    using display_layers_unique [of 1 unbatchedClient
        "[AddLayer 1 12, AddLayer 1 10, RemoveLayer 1 11, RemoveLayer 1 11]" okService 1 10]
      display_layers_unique [of 9 unbatchedClient "[]" okService 1 10]
      display_layers_unique [of 1 unbatchedClient "[]" okService 1 12]
    by (simp add: ls nf)
qed

section \<open>Properties of the layer lifecycle\<close>

text \<open>
  Claim C5. Without the batched layer lifecycle, a \<open>destroyLayer\<close> whose remote call fails
  returns the status of that call and leaves the registry exactly as it was (only the
  call log grows); the layer is taken out of the registry when the remote call succeeded.
\<close>

theorem unbatched_destroyLayer_failure_keeps_registry:
  assumes "\<not> mSupportsBatchedCreateLayer c"
  shows "(\<not> isOk (svc_destroyLayer R (remoteCalls c) display layer) \<longrightarrow>
            destroyLayer R display layer (c, writer) =
              (svc_destroyLayer R (remoteCalls c) display layer,
               c\<lparr>remoteCalls := remoteCalls c @ [CallDestroyLayer display layer]\<rparr>, writer)
            \<and> mDisplayResources (fst (snd (destroyLayer R display layer (c, writer)))) =
                mDisplayResources c)
       \<and> (isOk (svc_destroyLayer R (remoteCalls c) display layer) \<longrightarrow>
            destroyLayer R display layer (c, writer) =
              (StatusOk,
               removeLayerFromDisplayResources display layer
                 (c\<lparr>remoteCalls := remoteCalls c @ [CallDestroyLayer display layer]\<rparr>),
               writer))"
  using assms by (simp add: destroyLayer_def Let_def issue_def)

theorem unbatched_destroyLayer_failure_keeps_registry_witness:
  "\<not> mSupportsBatchedCreateLayer unbatchedClient
   \<and> \<not> isOk (svc_destroyLayer brokenService (remoteCalls unbatchedClient) 1 10)
   \<and> destroyLayer brokenService 1 10 (unbatchedClient, []) =
       (ServiceSpecificError EX_BAD_LAYER,
        unbatchedClient\<lparr>remoteCalls := [CallGetCapabilities, CallDestroyLayer 1 10]\<rparr>, [])
   \<and> mDisplayResources (fst (snd (destroyLayer brokenService 1 10 (unbatchedClient, [])))) =
       mDisplayResources unbatchedClient
   \<and> isOk (svc_destroyLayer okService (remoteCalls unbatchedClient) 1 10)
   \<and> layersOf 1 (fst (snd (destroyLayer okService 1 10 (unbatchedClient, [])))) = [11]"
proof -
  have nb: "\<not> mSupportsBatchedCreateLayer unbatchedClient"
    by (simp add: unbatchedClient_def)
  have bad: "svc_destroyLayer brokenService h d l = ServiceSpecificError EX_BAD_LAYER" for h d l
    by (simp add: brokenService_def)
  have good: "svc_destroyLayer okService h d l = StatusOk" for h d l
    by (simp add: okService_def)
  have calls: "remoteCalls unbatchedClient = [CallGetCapabilities]"
    by (simp add: unbatchedClient_def)
  have ls: "layersOf 1 (unbatchedClient\<lparr>remoteCalls := h\<rparr>) = [10, 11]" for h
    by (simp add: layersOf_def unbatchedClient_def)
  show ?thesis
    using unbatched_destroyLayer_failure_keeps_registry [OF nb, of brokenService 1 10 "[]"] unbatched_destroyLayer_failure_keeps_registry [OF nb, of okService 1 10 "[]"]
    by (simp add: nb bad good calls ls layersOf_removeLayer erase_layer_def)
qed

text \<open>
  Claim C10. With the batched layer lifecycle, \<open>destroyLayer\<close> returns success for every
  display id and layer id, whatever the service would answer: it sends no remote call,
  appends one destroy record to the pending buffer and removes the layer from the
  registry; for a layer that was not registered the client is unchanged.
\<close>

theorem batched_destroyLayer_always_ok:
  assumes "mSupportsBatchedCreateLayer c"
  shows "destroyLayer R display layer (c, writer) =
           (StatusOk, removeLayerFromDisplayResources display layer c,
            writer @ [SetLayerLifecycleBatchCommandType display layer DESTROY])
         \<and> isOk (fst (destroyLayer R display layer (c, writer)))
         \<and> remoteCalls (fst (snd (destroyLayer R display layer (c, writer)))) = remoteCalls c
         \<and> layer \<notin> set (layersOf display (fst (snd (destroyLayer R display layer (c, writer)))))
         \<and> (layer \<notin> set (layersOf display c) \<longrightarrow>
              fst (snd (destroyLayer R display layer (c, writer))) = c)"
proof -
  have eq: "destroyLayer R display layer (c, writer) =
           (StatusOk, removeLayerFromDisplayResources display layer c,
            writer @ [SetLayerLifecycleBatchCommandType display layer DESTROY])"
    using assms by (simp add: destroyLayer_def)
  have calls: "remoteCalls (removeLayerFromDisplayResources display layer c) = remoteCalls c"
    by (simp add: removeLayerFromDisplayResources_def split: option.splits)
  have gone: "layer \<notin> set (layersOf display (removeLayerFromDisplayResources display layer c))"
    by (simp add: layersOf_removeLayer erase_layer_def)
  show ?thesis
    using removeLayer_absent_layer [of layer display c] calls gone
    by (simp add: eq)
qed

theorem batched_destroyLayer_always_ok_witness:
  "mSupportsBatchedCreateLayer batchedClient
   \<and> destroyLayer brokenService 1 10 (batchedClient, []) =
       (StatusOk, removeLayerFromDisplayResources 1 10 batchedClient,
        [SetLayerLifecycleBatchCommandType 1 10 DESTROY])
   \<and> layersOf 1 (fst (snd (destroyLayer brokenService 1 10 (batchedClient, [])))) = [11]
   \<and> 77 \<notin> set (layersOf 9 batchedClient)
   \<and> destroyLayer brokenService 9 77 (batchedClient, []) =
       (StatusOk, batchedClient, [SetLayerLifecycleBatchCommandType 9 77 DESTROY])"
proof -
  have b: "mSupportsBatchedCreateLayer batchedClient"
    by (simp add: batchedClient_def)
  have ls: "layersOf 1 batchedClient = [10, 11]" "layersOf 9 batchedClient = []"
    by (simp_all add: layersOf_def batchedClient_def unbatchedClient_def)
  show ?thesis
    using batched_destroyLayer_always_ok [OF b, of brokenService 1 10 "[]"] batched_destroyLayer_always_ok [OF b, of brokenService 9 77 "[]"]
    by (auto simp add: b ls layersOf_removeLayer erase_layer_def)
qed


lemma layersOf_mNextLayerHandle [simp]:
  "layersOf d (c\<lparr>mNextLayerHandle := h\<rparr>) = layersOf d c"
  by (simp add: layersOf_def)


lemma batched_addLayer:
  "mSupportsBatchedCreateLayer (snd (addLayerToDisplayResources d l c)) =
   mSupportsBatchedCreateLayer c"
  by (simp add: addLayerToDisplayResources_def Let_def insert_layer_def
      split: option.splits prod.splits)











section \<open>Properties of teardown\<close>

lemma verify_False:
  assumes "mComposerCallback c = Some cb"
    and "invalidHotplugCount cb \<noteq> 0 \<or> invalidRefreshCount cb \<noteq> 0
       \<or> invalidVsyncCount cb \<noteq> 0 \<or> invalidVsyncPeriodChangeCount cb \<noteq> 0
       \<or> invalidSeamlessPossibleCount cb \<noteq> 0
       \<or> invalidRefreshRateDebugEnabledCallbackCount cb \<noteq> 0"
  shows "\<not> verifyComposerCallbackParams c"
  using assms by (auto simp: verifyComposerCallbackParams_def)

lemma tearDown_ok_unbatched:
  "tearDown okService (unbatchedClient, []) =
     (True,
      unbatchedClient
        \<lparr>mDisplayResources := [],
         remoteCalls := [CallGetCapabilities, CallDestroyLayer 1 10, CallDestroyLayer 1 11,
                         CallDestroyLayer 2 20, CallDestroyVirtualDisplay 2]\<rparr>,
      [])"
  by (simp add: tearDown_def verifyComposerCallbackParams_def destroyAllLayers_def
      unbatchedClient_def quietCallback_def okService_def destroyLayer_def
      destroyVirtualDisplay_def removeLayerFromDisplayResources_def issue_def erase_layer_def erase_display_def
      insert_node_def insert_display_def Let_def destroyAllLayers_loop.simps
      destroyLayersOf.simps)

text \<open>
  Claim C1, amended. A teardown that returns success leaves the registry empty: no
  virtual display, no layer, and no physical display either. The physical displays set
  aside during the drain are swapped back into the registry, which is then cleared.
\<close>

theorem tearDown_success_empties_registry:
  assumes "tearDown R (c, writer) = (True, c', writer')"
  shows "mDisplayResources c' = [] \<and> displayIds c' = [] \<and> layersOf d c' = []
     \<and> find_display d (mDisplayResources c') = None"
  using assms
  by (auto simp: tearDown_def destroyAllLayers_def Let_def displayIds_def layersOf_def
      split: if_splits prod.splits)

text \<open>
  The claim as stated fails: the session below has the physical display 1, its teardown
  succeeds, and display 1 is not in the registry afterwards.
\<close>

theorem tearDown_drops_physical_displays:
  "fst (tearDown okService (unbatchedClient, [])) = True
   \<and> find_display 1 (mDisplayResources unbatchedClient)
       = Some \<lparr>isVirtual = False, layers = [10, 11]\<rparr>
   \<and> find_display 1 (mDisplayResources (fst (snd (tearDown okService (unbatchedClient, [])))))
       = None"
  by (simp add: tearDown_ok_unbatched) (simp add: unbatchedClient_def)

theorem tearDown_success_empties_registry_witness:
  "tearDown okService (unbatchedClient, []) =
     (True,
      unbatchedClient
        \<lparr>mDisplayResources := [],
         remoteCalls := [CallGetCapabilities, CallDestroyLayer 1 10, CallDestroyLayer 1 11,
                         CallDestroyLayer 2 20, CallDestroyVirtualDisplay 2]\<rparr>,
      [])
   \<and> displayIds (fst (snd (tearDown okService (unbatchedClient, [])))) = []
   \<and> layersOf 1 (fst (snd (tearDown okService (unbatchedClient, [])))) = []"
  using tearDown_success_empties_registry [OF tearDown_ok_unbatched, of 1]
  by (simp add: tearDown_ok_unbatched)

text \<open>
  Claim C2, amended. When the collector has counted an anomalous notification of any of
  the six kinds, \<open>tearDown\<close> reports failure and does not run the drain: the registry, the
  pending buffer and the call log are as they were.
\<close>

theorem tearDown_anomaly_skips_drain:
  assumes "mComposerCallback c = Some cb"
    and "invalidHotplugCount cb \<noteq> 0 \<or> invalidRefreshCount cb \<noteq> 0
       \<or> invalidVsyncCount cb \<noteq> 0 \<or> invalidVsyncPeriodChangeCount cb \<noteq> 0
       \<or> invalidSeamlessPossibleCount cb \<noteq> 0
       \<or> invalidRefreshRateDebugEnabledCallbackCount cb \<noteq> 0"
  shows "tearDown R (c, writer) = (False, c, writer)"
  using verify_False [OF assms] by (simp add: tearDown_def)

text \<open>
  The claim as stated fails: with one invalid vsync counted, teardown fails, sends no
  call to a service that would have granted every one, and display 1 keeps its layers.
\<close>

theorem tearDown_anomaly_leaves_layers:
  "mComposerCallback anomalousClient \<noteq> None
   \<and> invalidVsyncCount (the (mComposerCallback anomalousClient)) = 1
   \<and> tearDown okService (anomalousClient, []) = (False, anomalousClient, [])
   \<and> layersOf 1 anomalousClient = [10, 11]
   \<and> remoteCalls (fst (snd (tearDown okService (anomalousClient, []))))
       = [CallGetCapabilities]"
  by (simp add: tearDown_def verifyComposerCallbackParams_def anomalousClient_def
      unbatchedClient_def layersOf_def)

theorem tearDown_anomaly_skips_drain_witness:
  "mComposerCallback anomalousClient =
     Some \<lparr>invalidHotplugCount = 0, invalidRefreshCount = 0, invalidVsyncCount = 1,
           invalidVsyncPeriodChangeCount = 0, invalidSeamlessPossibleCount = 0,
           invalidRefreshRateDebugEnabledCallbackCount = 0\<rparr>
   \<and> tearDown brokenService (anomalousClient, [SetNewBufferSlotCount 1 10 2]) =
       (False, anomalousClient, [SetNewBufferSlotCount 1 10 2])"
proof -
  have cb: "mComposerCallback anomalousClient =
     Some \<lparr>invalidHotplugCount = 0, invalidRefreshCount = 0, invalidVsyncCount = 1,
           invalidVsyncPeriodChangeCount = 0, invalidSeamlessPossibleCount = 0,
           invalidRefreshRateDebugEnabledCallbackCount = 0\<rparr>"
    by (simp add: anomalousClient_def)
  show ?thesis
    using tearDown_anomaly_skips_drain [OF cb, of brokenService "[SetNewBufferSlotCount 1 10 2]"]
    by (simp add: cb)
qed

section \<open>Properties of display discovery\<close>

lemma getDisplays_skip:
  assumes "\<forall>j<k. polls (n + j) = []"
  shows "getDisplays R polls n c = getDisplays R polls (n + k) c"
  using assms
proof (induction k arbitrary: n)
  case 0
  show ?case by simp
next
  case (Suc k)
  from Suc.prems have "polls n = []"
    by (metis add.right_neutral zero_less_Suc)
  then have "getDisplays R polls n c = getDisplays R polls (Suc n) c"
    by (subst getDisplays.simps) simp
  also have "\<dots> = getDisplays R polls (Suc n + k) c"
  proof (rule Suc.IH)
    show "\<forall>j<k. polls (Suc n + j) = []"
      using Suc.prems by (metis Suc_less_eq add_Suc_shift)
  qed
  finally show ?case by simp
qed

lemma getDisplays_found:
  assumes "\<forall>j<k. polls (n + j) = []" and "polls (n + k) \<noteq> []"
  shows "getDisplays R polls n c = Some (resolveDisplays R (polls (n + k)) [] c)"
proof -
  have "getDisplays R polls n c = getDisplays R polls (n + k) c"
    by (rule getDisplays_skip [OF assms(1)])
  also have "\<dots> = Some (resolveDisplays R (polls (n + k)) [] c)"
    using assms(2) by (subst getDisplays.simps) simp
  finally show ?thesis .
qed

lemma getDisplays_Some:
  assumes "getDisplays R polls n c = Some y"
  shows "\<exists>k. polls k \<noteq> [] \<and> y = resolveDisplays R (polls k) [] c"
proof (rule getDisplays.raw_induct
    [where P = "\<lambda>R polls n c y. \<exists>k. polls k \<noteq> [] \<and> y = resolveDisplays R (polls k) [] c",
     OF _ assms])
  fix g R polls n c y
  assume IH: "\<And>R polls n c y. g R polls n c = Some y \<Longrightarrow>
      \<exists>k. polls k \<noteq> [] \<and> y = resolveDisplays R (polls k) [] c"
    and step: "(if polls n = [] then g R polls (Suc n) c
      else Some (resolveDisplays R (polls n) [] c)) = Some y"
  show "\<exists>k. polls k \<noteq> [] \<and> y = resolveDisplays R (polls k) [] c"
  proof (cases "polls n = []")
    case True
    with step have "g R polls (Suc n) c = Some y" by simp
    then show ?thesis by (rule IH)
  next
    case False
    with step have "y = resolveDisplays R (polls n) [] c" by simp
    with False show ?thesis by blast
  qed
qed


lemma getDisplayConfigurationSupported_eq:
  "getDisplayConfigurationSupported R c =
     (3 \<le>s (case snd (svc_getInterfaceVersion R (remoteCalls c)) of
                None \<Rightarrow> 1 | Some version \<Rightarrow> version),
      c\<lparr>remoteCalls := remoteCalls c @ [CallGetInterfaceVersion]\<rparr>)"
  by (simp add: getDisplayConfigurationSupported_def getInterfaceVersion_def issue_def
      split: prod.splits)

lemma legacy_not_supported:
  assumes "\<forall>h. snd (svc_getInterfaceVersion R h) = Some version" and "version <s 3"
  shows "getDisplayConfigurationSupported R c = (False, issue CallGetInterfaceVersion c)"
proof -
  from assms(2) have "\<not> 3 \<le>s version"
    by (simp add: word_sless_alt word_sle_eq)
  with assms(1) show ?thesis
    by (simp add: getDisplayConfigurationSupported_eq issue_def)
qed

lemma addDisplayConfigLegacy_ok:
  assumes "\<forall>h config a. svc_getDisplayAttribute R h (mDisplayId vd) config a = (StatusOk, attr config a)"
  shows "addDisplayConfigLegacy R vd config c =
     (StatusOk,
      addDisplayConfig config
        \<lparr>vsyncPeriod = attr config VSYNC_PERIOD, configGroup = attr config CONFIG_GROUP,
         vrrConfig = None\<rparr> vd,
      c\<lparr>remoteCalls := remoteCalls c @
          [CallGetDisplayAttribute (mDisplayId vd) config VSYNC_PERIOD,
           CallGetDisplayAttribute (mDisplayId vd) config CONFIG_GROUP]\<rparr>)"
  using assms
  by (simp add: addDisplayConfigLegacy_def getDisplayAttribute_def getDisplayId_def issue_def)

lemma mDisplayId_addDisplayConfig [simp]:
  "mDisplayId (addDisplayConfig config dc vd) = mDisplayId vd"
  by (simp add: addDisplayConfig_def split: option.splits)

lemma updateDisplayProperties_legacy_ok:
  assumes "\<forall>h. snd (svc_getInterfaceVersion R h) = Some version" and "version <s 3"
    and "\<forall>h config a. svc_getDisplayAttribute R h (mDisplayId vd) config a = (StatusOk, attr config a)"
  shows "updateDisplayProperties R vd config c =
     (StatusOk, setDimensions (attr config WIDTH) (attr config HEIGHT) vd,
      c\<lparr>remoteCalls := remoteCalls c @
          [CallGetInterfaceVersion,
           CallGetDisplayAttribute (mDisplayId vd) config WIDTH,
           CallGetDisplayAttribute (mDisplayId vd) config HEIGHT]\<rparr>)"
  using assms(3)
  by (simp add: updateDisplayProperties_def legacy_not_supported [OF assms(1,2)]
      getDisplayAttribute_def getDisplayId_def issue_def)

text \<open>
  Claim C9. When the service answers a version below 3 and the collector, after any
  number of empty polls, reports one display whose raw config list is two distinct ids,
  and the attribute and active-config queries succeed, \<open>getDisplays\<close> returns: it sends
  one vsync-period query and one config-group query per config, four in all and in this
  order, and records both configs with the values those queries returned. The whole call
  sequence is given; besides the four queries it holds the three version queries, the
  config-list query, the active-config query and the width and height queries for the
  active config.
\<close>

theorem legacy_discovery_attribute_queries:
  assumes version: "\<forall>h. snd (svc_getInterfaceVersion R h) = Some version"
    and legacy: "version <s 3"
    and waiting: "\<forall>j<k. polls (n + j) = []"
    and reported: "polls (n + k) = [display]"
    and configs: "\<forall>h. svc_getDisplayConfigs R h display = (StatusOk, [config0, config1])"
    and different: "config0 \<noteq> config1"
    and attrs: "\<forall>h config a. svc_getDisplayAttribute R h display config a = (StatusOk, attr config a)"
    and active: "\<forall>h. svc_getActiveConfig R h display = (StatusOk, activeConfig)"
  shows "getDisplays R polls n c =
     Some (StatusOk,
       [\<lparr>mDisplayId = display,
         mDisplayWidth = attr activeConfig WIDTH,
         mDisplayHeight = attr activeConfig HEIGHT,
         mDisplayConfigs =
           [(config0, \<lparr>vsyncPeriod = attr config0 VSYNC_PERIOD,
                       configGroup = attr config0 CONFIG_GROUP, vrrConfig = None\<rparr>),
            (config1, \<lparr>vsyncPeriod = attr config1 VSYNC_PERIOD,
                       configGroup = attr config1 CONFIG_GROUP, vrrConfig = None\<rparr>)]\<rparr>],
       c\<lparr>mDisplayResources :=
            fst (insert_display display (newDisplayResource False) (mDisplayResources c)),
         remoteCalls := remoteCalls c @
           [CallGetInterfaceVersion, CallGetInterfaceVersion, CallGetDisplayConfigs display,
            CallGetDisplayAttribute display config0 VSYNC_PERIOD,
            CallGetDisplayAttribute display config0 CONFIG_GROUP,
            CallGetDisplayAttribute display config1 VSYNC_PERIOD,
            CallGetDisplayAttribute display config1 CONFIG_GROUP,
            CallGetActiveConfig display, CallGetInterfaceVersion,
            CallGetDisplayAttribute display activeConfig WIDTH,
            CallGetDisplayAttribute display activeConfig HEIGHT]\<rparr>)
   \<and> filter isTimingQuery
        (drop (length (remoteCalls c))
           (remoteCalls (snd (snd (the (getDisplays R polls n c)))))) =
       [CallGetDisplayAttribute display config0 VSYNC_PERIOD,
        CallGetDisplayAttribute display config0 CONFIG_GROUP,
        CallGetDisplayAttribute display config1 VSYNC_PERIOD,
        CallGetDisplayAttribute display config1 CONFIG_GROUP]
   \<and> length (filter isTimingQuery
        (drop (length (remoteCalls c))
           (remoteCalls (snd (snd (the (getDisplays R polls n c))))))) = 4"
proof -
  let ?vd0 = "VtsDisplay_new display"
  have id0: "mDisplayId ?vd0 = display"
    by (simp add: VtsDisplay_new_def)
  have sup: "getDisplayConfigurationSupported R c' = (False, issue CallGetInterfaceVersion c')"
    for c'
    by (rule legacy_not_supported [OF version legacy])
  have gdc: "getDisplayConfigs R display c' =
      (StatusOk, [config0, config1],
       c'\<lparr>remoteCalls := remoteCalls c' @ [CallGetInterfaceVersion, CallGetDisplayConfigs display]\<rparr>)"
    for c'
    using configs by (simp add: getDisplayConfigs_def sup issue_def)
  have adl: "addDisplayConfigLegacy R vd config c' =
     (StatusOk,
      addDisplayConfig config
        \<lparr>vsyncPeriod = attr config VSYNC_PERIOD, configGroup = attr config CONFIG_GROUP,
         vrrConfig = None\<rparr> vd,
      c'\<lparr>remoteCalls := remoteCalls c' @
          [CallGetDisplayAttribute display config VSYNC_PERIOD,
           CallGetDisplayAttribute display config CONFIG_GROUP]\<rparr>)"
    if "mDisplayId vd = display" for vd config c'
    using addDisplayConfigLegacy_ok [of R vd attr config c'] attrs that by simp
  have udp: "updateDisplayProperties R vd config c' =
     (StatusOk, setDimensions (attr config WIDTH) (attr config HEIGHT) vd,
      c'\<lparr>remoteCalls := remoteCalls c' @
          [CallGetInterfaceVersion,
           CallGetDisplayAttribute display config WIDTH,
           CallGetDisplayAttribute display config HEIGHT]\<rparr>)"
    if "mDisplayId vd = display" for vd config c'
    using updateDisplayProperties_legacy_ok [OF version legacy, of vd attr config c'] attrs that
    by simp
  have gac: "getActiveConfig R display c' =
      (StatusOk, activeConfig, c'\<lparr>remoteCalls := remoteCalls c' @ [CallGetActiveConfig display]\<rparr>)"
    for c'
    using active by (simp add: getActiveConfig_def issue_def)
  have loop: "addDisplayConfigsLegacy R ?vd0 [config0, config1] c' =
     (StatusOk,
      ?vd0\<lparr>mDisplayConfigs :=
           [(config0, \<lparr>vsyncPeriod = attr config0 VSYNC_PERIOD,
                       configGroup = attr config0 CONFIG_GROUP, vrrConfig = None\<rparr>),
            (config1, \<lparr>vsyncPeriod = attr config1 VSYNC_PERIOD,
                       configGroup = attr config1 CONFIG_GROUP, vrrConfig = None\<rparr>)]\<rparr>,
      c'\<lparr>remoteCalls := remoteCalls c' @
          [CallGetDisplayAttribute display config0 VSYNC_PERIOD,
           CallGetDisplayAttribute display config0 CONFIG_GROUP,
           CallGetDisplayAttribute display config1 VSYNC_PERIOD,
           CallGetDisplayAttribute display config1 CONFIG_GROUP]\<rparr>)"
    for c'
    using different
    by (simp add: adl id0) (simp add: addDisplayConfig_def VtsDisplay_new_def)
  have one: "resolveDisplay R display c =
     (StatusOk,
      \<lparr>mDisplayId = display,
         mDisplayWidth = attr activeConfig WIDTH,
         mDisplayHeight = attr activeConfig HEIGHT,
         mDisplayConfigs =
           [(config0, \<lparr>vsyncPeriod = attr config0 VSYNC_PERIOD,
                       configGroup = attr config0 CONFIG_GROUP, vrrConfig = None\<rparr>),
            (config1, \<lparr>vsyncPeriod = attr config1 VSYNC_PERIOD,
                       configGroup = attr config1 CONFIG_GROUP, vrrConfig = None\<rparr>)]\<rparr>,
       c\<lparr>mDisplayResources :=
            fst (insert_display display (newDisplayResource False) (mDisplayResources c)),
         remoteCalls := remoteCalls c @
           [CallGetInterfaceVersion, CallGetInterfaceVersion, CallGetDisplayConfigs display,
            CallGetDisplayAttribute display config0 VSYNC_PERIOD,
            CallGetDisplayAttribute display config0 CONFIG_GROUP,
            CallGetDisplayAttribute display config1 VSYNC_PERIOD,
            CallGetDisplayAttribute display config1 CONFIG_GROUP,
            CallGetActiveConfig display, CallGetInterfaceVersion,
            CallGetDisplayAttribute display activeConfig WIDTH,
            CallGetDisplayAttribute display activeConfig HEIGHT]\<rparr>)"
    by (simp add: resolveDisplay_def Let_def sup gdc loop gac udp id0 issue_def
          del: addDisplayConfigsLegacy.simps)
      (simp add: VtsDisplay_new_def setDimensions_def addDisplayToDisplayResources_def
        split: prod.splits)
  have "getDisplays R polls n c = Some (resolveDisplays R [display] [] c)"
    using getDisplays_found [OF waiting, of R c] reported by simp
  then have res: "getDisplays R polls n c = Some (StatusOk,
       [\<lparr>mDisplayId = display,
         mDisplayWidth = attr activeConfig WIDTH,
         mDisplayHeight = attr activeConfig HEIGHT,
         mDisplayConfigs =
           [(config0, \<lparr>vsyncPeriod = attr config0 VSYNC_PERIOD,
                       configGroup = attr config0 CONFIG_GROUP, vrrConfig = None\<rparr>),
            (config1, \<lparr>vsyncPeriod = attr config1 VSYNC_PERIOD,
                       configGroup = attr config1 CONFIG_GROUP, vrrConfig = None\<rparr>)]\<rparr>],
       c\<lparr>mDisplayResources :=
            fst (insert_display display (newDisplayResource False) (mDisplayResources c)),
         remoteCalls := remoteCalls c @
           [CallGetInterfaceVersion, CallGetInterfaceVersion, CallGetDisplayConfigs display,
            CallGetDisplayAttribute display config0 VSYNC_PERIOD,
            CallGetDisplayAttribute display config0 CONFIG_GROUP,
            CallGetDisplayAttribute display config1 VSYNC_PERIOD,
            CallGetDisplayAttribute display config1 CONFIG_GROUP,
            CallGetActiveConfig display, CallGetInterfaceVersion,
            CallGetDisplayAttribute display activeConfig WIDTH,
            CallGetDisplayAttribute display activeConfig HEIGHT]\<rparr>)"
    by (simp add: one)
  show ?thesis
    by (simp add: res isTimingQuery_def)
qed

theorem legacy_discovery_attribute_queries_witness:
  "snd (svc_getInterfaceVersion okService []) = Some 2 \<and> (2 :: int32) <s 3
   \<and> lateHotplug 0 = [] \<and> lateHotplug 1 = [] \<and> lateHotplug 2 = [5]
   \<and> svc_getDisplayConfigs okService [] 5 = (StatusOk, [0, 1])
   \<and> svc_getActiveConfig okService [] 5 = (StatusOk, 0)
   \<and> getDisplays okService lateHotplug 0 unbatchedClient =
     Some (StatusOk,
       [\<lparr>mDisplayId = 5, mDisplayWidth = 1080, mDisplayHeight = 1920,
         mDisplayConfigs =
           [(0, \<lparr>vsyncPeriod = 16666666, configGroup = 4, vrrConfig = None\<rparr>),
            (1, \<lparr>vsyncPeriod = 16666667, configGroup = 5, vrrConfig = None\<rparr>)]\<rparr>],
       unbatchedClient
        \<lparr>mDisplayResources :=
           mDisplayResources unbatchedClient @ [(5, \<lparr>isVirtual = False, layers = []\<rparr>)],
         remoteCalls :=
           [CallGetCapabilities,
            CallGetInterfaceVersion, CallGetInterfaceVersion, CallGetDisplayConfigs 5,
            CallGetDisplayAttribute 5 0 VSYNC_PERIOD, CallGetDisplayAttribute 5 0 CONFIG_GROUP,
            CallGetDisplayAttribute 5 1 VSYNC_PERIOD, CallGetDisplayAttribute 5 1 CONFIG_GROUP,
            CallGetActiveConfig 5, CallGetInterfaceVersion,
            CallGetDisplayAttribute 5 0 WIDTH, CallGetDisplayAttribute 5 0 HEIGHT]\<rparr>)
   \<and> length (filter isTimingQuery
        (drop (length (remoteCalls unbatchedClient))
           (remoteCalls (snd (snd (the (getDisplays okService lateHotplug 0 unbatchedClient)))))))
       = 4"
proof -
  have version: "\<forall>h. snd (svc_getInterfaceVersion okService h) = Some 2"
    by (simp add: okService_def)
  have legacy: "(2 :: int32) <s 3"
    by (simp add: word_sless_alt)
  have waiting: "\<forall>j<2. lateHotplug (0 + j) = []"
    by (simp add: lateHotplug_def)
  have reported: "lateHotplug (0 + 2) = [5]"
    by (simp add: lateHotplug_def)
  have configs: "\<forall>h. svc_getDisplayConfigs okService h 5 = (StatusOk, [0, 1])"
    by (simp add: okService_def)
  have different: "(0 :: int32) \<noteq> 1"
    by simp
  have attrs: "\<forall>h config a. svc_getDisplayAttribute okService h 5 config a =
      (StatusOk, okAttribute config a)"
    by (simp add: okService_def okAttribute_def)
  have active: "\<forall>h. svc_getActiveConfig okService h 5 = (StatusOk, 0)"
    by (simp add: okService_def)
  have reg: "fst (insert_display 5 (newDisplayResource False) (mDisplayResources unbatchedClient))
      = mDisplayResources unbatchedClient @ [(5, \<lparr>isVirtual = False, layers = []\<rparr>)]"
    by (simp add: insert_display_def newDisplayResource_def unbatchedClient_def)
  have calls: "remoteCalls unbatchedClient = [CallGetCapabilities]"
    by (simp add: unbatchedClient_def)
  have polls: "lateHotplug 0 = [] \<and> lateHotplug 1 = [] \<and> lateHotplug 2 = [5]"
    by (simp add: lateHotplug_def)
  have setting: "snd (svc_getInterfaceVersion okService []) = Some 2 \<and> (2 :: int32) <s 3"
    using version legacy by simp
  have answers: "svc_getDisplayConfigs okService [] 5 = (StatusOk, [0, 1])
      \<and> svc_getActiveConfig okService [] 5 = (StatusOk, 0)"
    using configs active by simp
  note run = legacy_discovery_attribute_queries
      [OF version legacy waiting reported configs different attrs active, of unbatchedClient]
  from run have result: "getDisplays okService lateHotplug 0 unbatchedClient =
     Some (StatusOk,
       [\<lparr>mDisplayId = 5, mDisplayWidth = 1080, mDisplayHeight = 1920,
         mDisplayConfigs =
           [(0, \<lparr>vsyncPeriod = 16666666, configGroup = 4, vrrConfig = None\<rparr>),
            (1, \<lparr>vsyncPeriod = 16666667, configGroup = 5, vrrConfig = None\<rparr>)]\<rparr>],
       unbatchedClient
        \<lparr>mDisplayResources :=
           mDisplayResources unbatchedClient @ [(5, \<lparr>isVirtual = False, layers = []\<rparr>)],
         remoteCalls :=
           [CallGetCapabilities,
            CallGetInterfaceVersion, CallGetInterfaceVersion, CallGetDisplayConfigs 5,
            CallGetDisplayAttribute 5 0 VSYNC_PERIOD, CallGetDisplayAttribute 5 0 CONFIG_GROUP,
            CallGetDisplayAttribute 5 1 VSYNC_PERIOD, CallGetDisplayAttribute 5 1 CONFIG_GROUP,
            CallGetActiveConfig 5, CallGetInterfaceVersion,
            CallGetDisplayAttribute 5 0 WIDTH, CallGetDisplayAttribute 5 0 HEIGHT]\<rparr>)"
    by (simp add: reg calls okAttribute_def)
  from run have count: "length (filter isTimingQuery
        (drop (length (remoteCalls unbatchedClient))
           (remoteCalls (snd (snd (the (getDisplays okService lateHotplug 0 unbatchedClient)))))))
       = 4"
    by blast
  from setting polls answers result count show ?thesis
    by blast
qed

section \<open>Properties of capability negotiation\<close>

lemma flag_removeLayer [simp]:
  "mSupportsBatchedCreateLayer (removeLayerFromDisplayResources d l c) =
   mSupportsBatchedCreateLayer c"
  by (simp add: removeLayerFromDisplayResources_def split: option.splits)

lemma flag_issue [simp]:
  "mSupportsBatchedCreateLayer (issue call c) = mSupportsBatchedCreateLayer c"
  by (simp add: issue_def)

lemma flag_addDisplay [simp]:
  "mSupportsBatchedCreateLayer (snd (addDisplayToDisplayResources d v c)) =
   mSupportsBatchedCreateLayer c"
  by (simp add: addDisplayToDisplayResources_def split: prod.splits)

lemma flag_createLayer:
  "mSupportsBatchedCreateLayer (fst (snd (snd (createLayer R d n (c, w))))) =
   mSupportsBatchedCreateLayer c"
  by (simp add: createLayer_def Let_def case_prod_unfold batched_addLayer)

lemma flag_destroyLayer:
  "mSupportsBatchedCreateLayer (fst (snd (destroyLayer R d l (c, w)))) =
   mSupportsBatchedCreateLayer c"
  by (simp add: destroyLayer_def Let_def)

lemma flag_destroyVirtualDisplay [simp]:
  "mSupportsBatchedCreateLayer (snd (destroyVirtualDisplay R d c)) =
   mSupportsBatchedCreateLayer c"
  by (simp add: destroyVirtualDisplay_def Let_def)

lemma flag_destroyLayersOf:
  "mSupportsBatchedCreateLayer (fst (snd (destroyLayersOf R d (c, w)))) =
   mSupportsBatchedCreateLayer c"
proof (induction R d "(c, w)" arbitrary: c w rule: destroyLayersOf.induct)
  case (1 R display c writer)
  note unfold = destroyLayersOf.simps [of R display c writer]
  show ?case
  proof (cases "find_display display (mDisplayResources c)")
    case None
    then show ?thesis by (simp add: unfold)
  next
    case (Some resource)
    show ?thesis
    proof (cases "layers resource")
      case Nil
      with Some show ?thesis by (simp add: unfold)
    next
      case (Cons layer rest)
      obtain st c1 w1 where dl: "destroyLayer R display layer (c, writer) = (st, c1, w1)"
        by (cases "destroyLayer R display layer (c, writer)") auto
      have f1: "mSupportsBatchedCreateLayer c1 = mSupportsBatchedCreateLayer c"
        using flag_destroyLayer [of R display layer c writer] by (simp add: dl)
      show ?thesis
      proof (cases "isOk st")
        case False
        with Some Cons dl f1 show ?thesis by (simp add: unfold)
      next
        case True
        with "1.hyps" [OF Some Cons dl [symmetric] refl] Some Cons dl f1 show ?thesis
          by (simp add: unfold)
      qed
    qed
  qed
qed

lemma flag_destroyAllLayers_loop:
  "mSupportsBatchedCreateLayer (fst (snd (destroyAllLayers_loop R (c, w, p)))) =
   mSupportsBatchedCreateLayer c"
proof (induction R "(c, w, p)" arbitrary: c w p rule: destroyAllLayers_loop.induct)
  case (1 R c writer physicalDisplays)
  note unfold = destroyAllLayers_loop.simps [of R c writer physicalDisplays]
  show ?case
  proof (cases "mDisplayResources c")
    case Nil
    then show ?thesis by (simp add: unfold)
  next
    case (Cons e rest)
    obtain display resource where e: "e = (display, resource)" by (cases e)
    obtain drained c1 w1 where dr: "destroyLayersOf R display (c, writer) = (drained, c1, w1)"
      by (cases "destroyLayersOf R display (c, writer)") auto
    have f1: "mSupportsBatchedCreateLayer c1 = mSupportsBatchedCreateLayer c"
      using flag_destroyLayersOf [of R display c writer] by (simp add: dr)
    show ?thesis
    proof (cases drained)
      case False
      with Cons e dr f1 show ?thesis by (simp add: unfold)
    next
      case True
      show ?thesis
      proof (cases "isVirtual resource")
        case virt: True
        obtain st c2 where dv: "destroyVirtualDisplay R display c1 = (st, c2)"
          by (cases "destroyVirtualDisplay R display c1")
        have f2: "mSupportsBatchedCreateLayer c2 = mSupportsBatchedCreateLayer c1"
          using flag_destroyVirtualDisplay [of R display c1] by (simp add: dv)
        show ?thesis
        proof (cases "isOk st")
          case False
          with Cons e dr True virt dv f1 f2 show ?thesis by (simp add: unfold)
        next
          case ok: True
          have "mSupportsBatchedCreateLayer
              (fst (snd (destroyAllLayers_loop R (c2, w1, physicalDisplays)))) =
              mSupportsBatchedCreateLayer c2"
            using "1.hyps"(1) [OF Cons e [symmetric] dr [symmetric] refl _ virt dv [symmetric]]
              True ok by simp
          with Cons e dr True virt dv ok f1 f2 show ?thesis by (simp add: unfold)
        qed
      next
        case phys: False
        obtain node reg where ex: "extract_display display (mDisplayResources c1) = (node, reg)"
          by (cases "extract_display display (mDisplayResources c1)")
        have "mSupportsBatchedCreateLayer
            (fst (snd (destroyAllLayers_loop R
               (c1\<lparr>mDisplayResources := reg\<rparr>, w1, insert_node node physicalDisplays)))) =
            mSupportsBatchedCreateLayer (c1\<lparr>mDisplayResources := reg\<rparr>)"
          using "1.hyps"(2) [OF Cons e [symmetric] dr [symmetric] refl _ phys ex [symmetric]]
            True by simp
        with Cons e dr True phys ex f1 show ?thesis by (simp add: unfold)
      qed
    qed
  qed
qed

lemma flag_tearDown:
  "mSupportsBatchedCreateLayer (fst (snd (tearDown R (c, w)))) = mSupportsBatchedCreateLayer c"
  by (simp add: tearDown_def destroyAllLayers_def Let_def case_prod_unfold
      flag_destroyAllLayers_loop)


lemma flag_supported [simp]:
  "mSupportsBatchedCreateLayer (snd (getDisplayConfigurationSupported R c)) =
   mSupportsBatchedCreateLayer c"
  by (simp add: getDisplayConfigurationSupported_eq)

lemma flag_getDisplayAttribute [simp]:
  "mSupportsBatchedCreateLayer (snd (snd (getDisplayAttribute R d config a c))) =
   mSupportsBatchedCreateLayer c"
  by (simp add: getDisplayAttribute_def case_prod_unfold)

lemma flag_getDisplayConfigurations [simp]:
  "mSupportsBatchedCreateLayer (snd (snd (getDisplayConfigurations R d c))) =
   mSupportsBatchedCreateLayer c"
  by (simp add: getDisplayConfigurations_def case_prod_unfold)

lemma flag_getActiveConfig [simp]:
  "mSupportsBatchedCreateLayer (snd (snd (getActiveConfig R d c))) =
   mSupportsBatchedCreateLayer c"
  by (simp add: getActiveConfig_def case_prod_unfold)

lemma flag_getDisplayConfigs [simp]:
  "mSupportsBatchedCreateLayer (snd (snd (getDisplayConfigs R d c))) =
   mSupportsBatchedCreateLayer c"
  by (simp add: getDisplayConfigs_def case_prod_unfold)

lemma flag_addDisplayConfigLegacy [simp]:
  "mSupportsBatchedCreateLayer (snd (snd (addDisplayConfigLegacy R vd config c))) =
   mSupportsBatchedCreateLayer c"
  by (simp add: addDisplayConfigLegacy_def case_prod_unfold)

lemma flag_addDisplayConfigsLegacy [simp]:
  "mSupportsBatchedCreateLayer (snd (snd (addDisplayConfigsLegacy R vd configs c))) =
   mSupportsBatchedCreateLayer c"
  by (induction configs arbitrary: vd c) (simp_all add: case_prod_unfold)

lemma flag_updateDisplayProperties [simp]:
  "mSupportsBatchedCreateLayer (snd (snd (updateDisplayProperties R vd config c))) =
   mSupportsBatchedCreateLayer c"
  by (simp add: updateDisplayProperties_def case_prod_unfold split: option.splits)

lemma flag_resolveDisplay [simp]:
  "mSupportsBatchedCreateLayer (snd (snd (resolveDisplay R d c))) =
   mSupportsBatchedCreateLayer c"
  by (simp add: resolveDisplay_def Let_def case_prod_unfold)

lemma flag_resolveDisplays [simp]:
  "mSupportsBatchedCreateLayer (snd (snd (resolveDisplays R ds acc c))) =
   mSupportsBatchedCreateLayer c"
  by (induction ds arbitrary: acc c) (simp_all add: case_prod_unfold)

lemma flag_getDisplays:
  "(case getDisplays R polls n c of
      None \<Rightarrow> True
    | Some result \<Rightarrow>
        mSupportsBatchedCreateLayer (snd (snd result)) = mSupportsBatchedCreateLayer c)"
proof (cases "getDisplays R polls n c")
  case None
  then show ?thesis by simp
next
  case (Some y)
  from getDisplays_Some [OF Some] show ?thesis
    by (auto simp: Some)
qed

lemma calls_getDisplayAttribute:
  "remoteCalls (snd (snd (getDisplayAttribute R d config a c))) =
   remoteCalls c @ [CallGetDisplayAttribute d config a]"
  by (simp add: getDisplayAttribute_def case_prod_unfold issue_def)

lemma calls_updateDisplayProperties:
  "\<exists>rest. remoteCalls (snd (snd (updateDisplayProperties R vd config c))) =
     remoteCalls c @ CallGetInterfaceVersion # rest"
  by (simp add: updateDisplayProperties_def getDisplayConfigurationSupported_eq
      getDisplayConfigurations_def calls_getDisplayAttribute case_prod_unfold issue_def
      split: option.splits)

lemma calls_getDisplayConfigs:
  "\<exists>rest. remoteCalls (snd (snd (getDisplayConfigs R d c))) =
     remoteCalls c @ CallGetInterfaceVersion # rest"
  by (simp add: getDisplayConfigs_def getDisplayConfigurationSupported_eq
      getDisplayConfigurations_def case_prod_unfold issue_def)

lemma calls_supported:
  "remoteCalls (snd (getDisplayConfigurationSupported R c)) =
     remoteCalls c @ [CallGetInterfaceVersion]"
  by (simp add: getDisplayConfigurationSupported_eq)

lemma ext_getDisplayConfigurations:
  "remoteCalls (snd (snd (getDisplayConfigurations R d c))) =
     remoteCalls c @ [CallGetDisplayConfigurations d]"
  by (simp add: getDisplayConfigurations_def case_prod_unfold issue_def)

lemma ext_getActiveConfig:
  "remoteCalls (snd (snd (getActiveConfig R d c))) = remoteCalls c @ [CallGetActiveConfig d]"
  by (simp add: getActiveConfig_def case_prod_unfold issue_def)

lemma ext_addDisplayConfigLegacy:
  "remoteCalls (snd (snd (addDisplayConfigLegacy R vd config c))) =
     remoteCalls c @ [CallGetDisplayAttribute (mDisplayId vd) config VSYNC_PERIOD,
                      CallGetDisplayAttribute (mDisplayId vd) config CONFIG_GROUP]"
  by (simp add: addDisplayConfigLegacy_def getDisplayAttribute_def getDisplayId_def
      case_prod_unfold issue_def)

lemma ext_addDisplayConfigsLegacy:
  "\<exists>ext. remoteCalls (snd (snd (addDisplayConfigsLegacy R vd configs c))) = remoteCalls c @ ext"
proof (induction configs arbitrary: vd c)
  case Nil
  show ?case by simp
next
  case (Cons config configs)
  obtain st vd' c' where step: "addDisplayConfigLegacy R vd config c = (st, vd', c')"
    by (cases "addDisplayConfigLegacy R vd config c") auto
  from ext_addDisplayConfigLegacy [of R vd config c] step
  obtain e1 where e1: "remoteCalls c' = remoteCalls c @ e1" by simp
  show ?case
  proof (cases "isOk st")
    case False
    with step e1 show ?thesis by simp
  next
    case True
    from Cons.IH [of vd' c'] obtain e2 where
      "remoteCalls (snd (snd (addDisplayConfigsLegacy R vd' configs c'))) = remoteCalls c' @ e2"
      by blast
    with True step e1 show ?thesis by simp
  qed
qed

lemma ext_updateDisplayProperties:
  "\<exists>ext. remoteCalls (snd (snd (updateDisplayProperties R vd config c))) = remoteCalls c @ ext"
  using calls_updateDisplayProperties [of R vd config c] by auto

lemma ext_addDisplay [simp]:
  "remoteCalls (snd (addDisplayToDisplayResources d v c)) = remoteCalls c"
  by (simp add: addDisplayToDisplayResources_def case_prod_unfold)

lemma calls_resolveDisplay:
  "\<exists>rest. remoteCalls (snd (snd (resolveDisplay R d c))) =
     remoteCalls c @ CallGetInterfaceVersion #
       (if fst (getDisplayConfigurationSupported R c) then CallGetDisplayConfigurations d
        else CallGetInterfaceVersion) # rest"
proof -
  let ?vd = "VtsDisplay_new d"
  obtain sup c1 where s: "getDisplayConfigurationSupported R c = (sup, c1)"
    by (cases "getDisplayConfigurationSupported R c")
  let ?X = "if sup then CallGetDisplayConfigurations d else CallGetInterfaceVersion"
  have q1: "remoteCalls c1 = remoteCalls c @ [CallGetInterfaceVersion]"
    using calls_supported [of R c] by (simp add: s)
  let ?phase = "if sup then
        (case getDisplayConfigurations R d c1 of
           (status, configs, c2) \<Rightarrow>
             if \<not> isOk status then (status, ?vd, c2)
             else (StatusOk, addDisplayConfigs ?vd configs, c2))
      else
        (case getDisplayConfigs R d c1 of
           (status, configs, c2) \<Rightarrow>
             if \<not> isOk status then (status, ?vd, c2)
             else addDisplayConfigsLegacy R ?vd configs c2)"
  obtain st vd1 c3 where phase: "?phase = (st, vd1, c3)"
    by (cases ?phase)
  have "\<exists>e. remoteCalls c3 = remoteCalls c1 @ ?X # e"
  proof (cases sup)
    case True
    obtain gst cfgs c2 where g: "getDisplayConfigurations R d c1 = (gst, cfgs, c2)"
      by (cases "getDisplayConfigurations R d c1")
    have "remoteCalls c2 = remoteCalls c1 @ [CallGetDisplayConfigurations d]"
      using ext_getDisplayConfigurations [of R d c1] by (simp add: g)
    moreover from phase True g have "c3 = c2"
      by (cases "isOk gst") simp_all
    ultimately show ?thesis using True by simp
  next
    case False
    obtain gst cfgs c2 where g: "getDisplayConfigs R d c1 = (gst, cfgs, c2)"
      by (cases "getDisplayConfigs R d c1")
    obtain r where gr: "remoteCalls c2 = remoteCalls c1 @ CallGetInterfaceVersion # r"
      using calls_getDisplayConfigs [of R d c1] by (auto simp: g)
    show ?thesis
    proof (cases "isOk gst")
      case ok: False
      with phase False g have "c3 = c2" by simp
      with gr False show ?thesis by simp
    next
      case ok: True
      with phase False g have "c3 = snd (snd (addDisplayConfigsLegacy R ?vd cfgs c2))" by simp
      moreover obtain e2 where
        "remoteCalls (snd (snd (addDisplayConfigsLegacy R ?vd cfgs c2))) = remoteCalls c2 @ e2"
        using ext_addDisplayConfigsLegacy by blast
      ultimately show ?thesis using gr False by simp
    qed
  qed
  then obtain e3 where q3: "remoteCalls c3 = remoteCalls c @ CallGetInterfaceVersion # ?X # e3"
    by (auto simp: q1)
  obtain ast acfg c4 where a: "getActiveConfig R d c3 = (ast, acfg, c4)"
    by (cases "getActiveConfig R d c3")
  have q4: "remoteCalls c4 = remoteCalls c3 @ [CallGetActiveConfig d]"
    using ext_getActiveConfig [of R d c3] by (simp add: a)
  obtain ust vd2 c5 where u: "updateDisplayProperties R vd1 acfg c4 = (ust, vd2, c5)"
    by (cases "updateDisplayProperties R vd1 acfg c4")
  obtain e5 where q5: "remoteCalls c5 = remoteCalls c4 @ e5"
    using ext_updateDisplayProperties [of R vd1 acfg c4] by (auto simp: u)
  have unfolded: "resolveDisplay R d c =
      (if \<not> isOk st then (st, vd1, c3)
       else if \<not> isOk ast then (ast, vd1, c4)
       else if \<not> isOk ust then (ust, vd2, c5)
       else (StatusOk, vd2, snd (addDisplayToDisplayResources d False c5)))"
    by (simp add: resolveDisplay_def Let_def s phase a u)
  have "\<exists>rest. remoteCalls (snd (snd (resolveDisplay R d c))) =
      remoteCalls c @ CallGetInterfaceVersion # ?X # rest"
  proof (cases "isOk st")
    case False
    with unfolded q3 show ?thesis by simp
  next
    case st_ok: True
    show ?thesis
    proof (cases "isOk ast")
      case False
      with st_ok unfolded q3 q4 show ?thesis by simp
    next
      case ast_ok: True
      show ?thesis
      proof (cases "isOk ust")
        case False
        with st_ok ast_ok unfolded q3 q4 q5 show ?thesis by simp
      next
        case True
        with st_ok ast_ok unfolded q3 q4 q5 show ?thesis by simp
      qed
    qed
  qed
  then show ?thesis by (simp add: s)
qed


lemma versionQueries_ext:
  "remoteCalls c' = remoteCalls c @ ext \<Longrightarrow>
   versionQueries c' = versionQueries c + count_list ext CallGetInterfaceVersion"
  by (simp add: versionQueries_def)

lemma queries_resolveDisplay:
  "versionQueries c < versionQueries (snd (snd (resolveDisplay R d c)))"
proof -
  obtain rest x where
    "remoteCalls (snd (snd (resolveDisplay R d c))) =
       remoteCalls c @ CallGetInterfaceVersion # x # rest"
    using calls_resolveDisplay [of R d c] by blast
  from versionQueries_ext [OF this] show ?thesis by simp
qed

lemma queries_resolveDisplays:
  assumes "resolveDisplays R ds acc c = (st, vds, c')"
  shows "versionQueries c + length vds + (if isOk st then 0 else 1)
           \<le> versionQueries c' + length acc
       \<and> (isOk st \<longrightarrow> length vds = length acc + length ds)"
  using assms
proof (induction ds arbitrary: acc c)
  case Nil
  then show ?case by auto
next
  case (Cons d ds)
  obtain st1 vd c1 where r: "resolveDisplay R d c = (st1, vd, c1)"
    by (cases "resolveDisplay R d c")
  have q: "versionQueries c < versionQueries c1"
    using queries_resolveDisplay [of c R d] by (simp add: r)
  show ?case
  proof (cases "isOk st1")
    case False
    with Cons.prems r q show ?thesis by auto
  next
    case True
    with Cons.prems r have "resolveDisplays R ds (acc @ [vd]) c1 = (st, vds, c')"
      by simp
    from Cons.IH [OF this] q show ?thesis by auto
  qed
qed

lemma queries_getDisplays:
  "(case getDisplays R polls n c of
      None \<Rightarrow> True
    | Some result \<Rightarrow>
        versionQueries c + length (fst (snd result)) + (if isOk (fst result) then 0 else 1)
          \<le> versionQueries (snd (snd result))
        \<and> versionQueries c < versionQueries (snd (snd result)))"
proof (cases "getDisplays R polls n c")
  case None
  then show ?thesis by simp
next
  case (Some y)
  from getDisplays_Some [OF Some] obtain k where
    k: "polls k \<noteq> []" and y: "y = resolveDisplays R (polls k) [] c"
    by blast
  obtain st vds c' where res: "resolveDisplays R (polls k) [] c = (st, vds, c')"
    by (cases "resolveDisplays R (polls k) [] c")
  from queries_resolveDisplays [OF res] k
  have "versionQueries c + length vds + (if isOk st then 0 else 1) \<le> versionQueries c'"
    and "versionQueries c < versionQueries c'"
    by (cases "isOk st"; cases "polls k"; simp)+
  then show ?thesis by (simp add: Some y res)
qed

text \<open>
  Claim C3, amended. The batched-lifecycle flag is computed once, by the constructor, from
  the capability query, and no layer operation, configuration query, discovery or teardown
  changes it. The interface version is not determined at construction and is not kept:
  \<open>getDisplayConfigurationSupported\<close> asks the composer client for its version every time
  it is called and branches on that answer. So \<open>getDisplayConfigs\<close> and
  \<open>updateDisplayProperties\<close> each begin with a version query, and so does the resolution
  of every display in \<open>getDisplays\<close>, whose next call is the one that answer selects:
  discovery sends at least one version query per display it returns, one more for a
  display it fails on, and never returns without having sent one.
\<close>

theorem capabilities_fixed_version_requeried:
  "mSupportsBatchedCreateLayer (VtsComposerClient_new R h) =
     (LAYER_LIFECYCLE_BATCH_COMMAND \<in> set (snd (svc_getCapabilities R [])))
   \<and> remoteCalls (VtsComposerClient_new R h) = [CallGetCapabilities]
   \<and> mSupportsBatchedCreateLayer (fst (snd (snd (createLayer R d n (c, w))))) =
       mSupportsBatchedCreateLayer c
   \<and> mSupportsBatchedCreateLayer (fst (snd (destroyLayer R d l (c, w)))) =
       mSupportsBatchedCreateLayer c
   \<and> mSupportsBatchedCreateLayer (fst (snd (tearDown R (c, w)))) =
       mSupportsBatchedCreateLayer c
   \<and> mSupportsBatchedCreateLayer (snd (snd (getDisplayConfigs R d c))) =
       mSupportsBatchedCreateLayer c
   \<and> mSupportsBatchedCreateLayer (snd (snd (updateDisplayProperties R vd config c))) =
       mSupportsBatchedCreateLayer c
   \<and> (case getDisplays R polls k c of
         None \<Rightarrow> True
       | Some result \<Rightarrow>
           mSupportsBatchedCreateLayer (snd (snd result)) = mSupportsBatchedCreateLayer c)
   \<and> getDisplayConfigurationSupported R c =
       (3 \<le>s (case snd (svc_getInterfaceVersion R (remoteCalls c)) of
                  None \<Rightarrow> 1 | Some version \<Rightarrow> version),
        c\<lparr>remoteCalls := remoteCalls c @ [CallGetInterfaceVersion]\<rparr>)
   \<and> (\<exists>rest. remoteCalls (snd (snd (getDisplayConfigs R d c))) =
         remoteCalls c @ CallGetInterfaceVersion # rest)
   \<and> (\<exists>rest. remoteCalls (snd (snd (updateDisplayProperties R vd config c))) =
         remoteCalls c @ CallGetInterfaceVersion # rest)
   \<and> (\<exists>rest. remoteCalls (snd (snd (resolveDisplay R d c))) =
         remoteCalls c @ CallGetInterfaceVersion #
           (if fst (getDisplayConfigurationSupported R c) then CallGetDisplayConfigurations d
            else CallGetInterfaceVersion) # rest)
   \<and> versionQueries c < versionQueries (snd (snd (resolveDisplay R d c)))
   \<and> (case getDisplays R polls k c of
         None \<Rightarrow> True
       | Some result \<Rightarrow>
           versionQueries c + length (fst (snd result)) + (if isOk (fst result) then 0 else 1)
             \<le> versionQueries (snd (snd result))
           \<and> versionQueries c < versionQueries (snd (snd result)))"
proof -
  have new: "mSupportsBatchedCreateLayer (VtsComposerClient_new R h) =
     (LAYER_LIFECYCLE_BATCH_COMMAND \<in> set (snd (svc_getCapabilities R [])))"
    by (auto simp: VtsComposerClient_new_def case_prod_unfold list_ex_iff)
  have calls: "remoteCalls (VtsComposerClient_new R h) = [CallGetCapabilities]"
    by (simp add: VtsComposerClient_new_def case_prod_unfold)
  show ?thesis
    using new calls flag_createLayer [of R d n c w] flag_destroyLayer [of R d l c w]
      flag_tearDown [of R c w] flag_getDisplayConfigs [of R d c]
      flag_updateDisplayProperties [of R vd config c]
      flag_getDisplays [where R = R and polls = polls and n = k and c = c]
      getDisplayConfigurationSupported_eq [where R = R and c = c]
      calls_getDisplayConfigs [where R = R and d = d and c = c]
      calls_updateDisplayProperties [where R = R and vd = vd and config = config and c = c]
      calls_resolveDisplay [where R = R and d = d and c = c]
      queries_resolveDisplay [where R = R and d = d and c = c]
      queries_getDisplays [where R = R and polls = polls and n = k and c = c]
    by blast
qed

text \<open>
  The claim as stated fails: the constructor sends no version query, and two consecutive
  \<open>getDisplayConfigs\<close> calls each send one; with a service whose answer rises from 2 to 3
  the first call takes the legacy path and the second the extended one.
\<close>

theorem version_requeried_per_call:
  "remoteCalls (VtsComposerClient_new upgradingService 1) = [CallGetCapabilities]
   \<and> remoteCalls (snd (snd (getDisplayConfigs upgradingService 1
        (snd (snd (getDisplayConfigs upgradingService 1
           (VtsComposerClient_new upgradingService 1))))))) =
       [CallGetCapabilities, CallGetInterfaceVersion, CallGetDisplayConfigs 1,
        CallGetInterfaceVersion, CallGetDisplayConfigurations 1]"
  by (simp add: VtsComposerClient_new_def upgradingService_def okService_def
      getDisplayConfigs_def getDisplayConfigurationSupported_eq getDisplayConfigurations_def
      issue_def word_sle_eq)

theorem capabilities_fixed_version_requeried_witness:
  "mSupportsBatchedCreateLayer (VtsComposerClient_new okService 1)
   \<and> remoteCalls (VtsComposerClient_new okService 1) = [CallGetCapabilities]
   \<and> \<not> mSupportsBatchedCreateLayer (fst (snd (tearDown okService (unbatchedClient, []))))
   \<and> getDisplayConfigurationSupported okService unbatchedClient =
       (False, unbatchedClient\<lparr>remoteCalls := [CallGetCapabilities, CallGetInterfaceVersion]\<rparr>)
   \<and> versionQueries unbatchedClient
       < versionQueries (snd (snd (resolveDisplay okService 5 unbatchedClient)))"
  using capabilities_fixed_version_requeried [where R = okService and h = 1 and d = 5 and n = 2 and c = unbatchedClient
      and w = "[]" and l = 10 and vd = "VtsDisplay_new 1" and config = 0
      and polls = lateHotplug and k = 0]
  by (simp add: okService_def unbatchedClient_def word_sle_eq)

section \<open>Properties of error reporting\<close>






















end
